theory Spec2Isabelle
  imports Main
begin

section \<open>Errors and API objects\<close>

text \<open>
  The file \<^verbatim>\<open>pkg/cmd/server/origin/ensure.go\<close> bootstraps namespaces, roles, role bindings
  and security policies through client calls. Every client call returns a Go \<^verbatim>\<open>error\<close>,
  which the code inspects only through \<^verbatim>\<open>err != nil\<close>, \<^verbatim>\<open>kapierror.IsNotFound\<close>,
  \<^verbatim>\<open>kapierror.IsAlreadyExists\<close> and \<^verbatim>\<open>kapierror.IsConflict\<close>. An error value is
  therefore one of four kinds, and \<open>None\<close> stands for \<^verbatim>\<open>nil\<close>.
\<close>

datatype api_error = NotFound | AlreadyExists | Conflict | OtherError

definition IsNotFound :: "api_error option \<Rightarrow> bool" where
  "IsNotFound err = (err = Some NotFound)"

definition IsAlreadyExists :: "api_error option \<Rightarrow> bool" where
  "IsAlreadyExists err = (err = Some AlreadyExists)"

definition IsConflict :: "api_error option \<Rightarrow> bool" where
  "IsConflict err = (err = Some Conflict)"

text \<open>A call that returns \<^verbatim>\<open>(object, err)\<close> is a sum; \<open>err_of\<close> reads its error.\<close>

fun err_of :: "api_error + 'a \<Rightarrow> api_error option" where
  "err_of (Inl e) = Some e"
| "err_of (Inr _) = None"

text \<open>
  Only the fields that the code reads or writes are kept. \<open>Annotations\<close> is a Go map
  that may be \<^verbatim>\<open>nil\<close> (\<open>None\<close>); reading a missing key, or a nil map, gives the empty
  string.
\<close>

record Namespace =
  Namespace_Name :: string
  Annotations :: "(string \<rightharpoonup> string) option"

definition annotation :: "Namespace \<Rightarrow> string \<Rightarrow> string" where
  "annotation namespace k =
     (case Annotations namespace of
        None \<Rightarrow> []
      | Some m \<Rightarrow> (case m k of None \<Rightarrow> [] | Some v \<Rightarrow> v))"

record ObjectReference =
  Ref_Name :: string
  Ref_Namespace :: string

record RoleBinding =
  RoleBinding_Name :: string
  RoleRef :: ObjectReference
  Subjects :: "string list"

record Role =
  Role_Name :: string

record RbacRole =
  RbacRole_Name :: string

record RbacRoleBinding =
  RbacRoleBinding_Name :: string

record ClusterRole =
  ClusterRole_Name :: string

record ClusterRoleBinding =
  ClusterRoleBinding_Name :: string
  ClusterRoleBinding_RoleRef :: ObjectReference

record SecurityContextConstraints =
  SCC_Name :: string

text \<open>
  \<^verbatim>\<open>policy.ReconcileClusterRolesOptions\<close> and \<^verbatim>\<open>policy.ReconcileClusterRoleBindingsOptions\<close>
  are built with the same four fields; \<^verbatim>\<open>Out\<close> is always \<^verbatim>\<open>ioutil.Discard\<close> and
  is left out. \<^verbatim>\<open>policy.RoleModificationOptions\<close> carries the namespace of its local
  role-binding accessor.
\<close>

record ReconcileOptions =
  RolesToReconcile :: "string list"
  Confirmed :: bool
  Union_flag :: bool

record RoleModificationOptions =
  RoleName :: string
  RoleNamespace :: string
  RoleBindingAccessor :: string
  Mod_Subjects :: "string list"

section \<open>Observable effects\<close>

text \<open>
  Each client call and each log line is recorded as an event, a call together with the
  outcome that the collaborator gave. Log events carry the format string of their call
  site; \<open>V2_Infof\<close> is \<^verbatim>\<open>glog.V(2).Infof\<close> and \<open>HandleError\<close> is
  \<^verbatim>\<open>utilruntime.HandleError\<close>. \<open>Sleep n\<close> is a \<^verbatim>\<open>time.Sleep\<close> of \<open>n\<close> seconds.
\<close>

datatype event =
    NamespaceGet string "api_error + Namespace"
  | NamespaceCreate Namespace "api_error + Namespace"
  | NamespaceUpdate Namespace "api_error + Namespace"
  | ReconcileClusterRoles ReconcileOptions "api_error option"
  | ReconcileClusterRoleBindings ReconcileOptions "api_error option"
  | AddRoleCall RoleModificationOptions "api_error option"
  | SCCCreate SecurityContextConstraints "api_error option"
  | NewRESTCall "api_error option"
  | GetClusterPolicyCall string "api_error option"
  | OverwriteBootstrapPolicyCall string "api_error option"
  | RoleCreate string Role "api_error option"
  | RoleBindingCreate string RoleBinding "api_error option"
  | HandleError string
  | Errorf string
  | Infof string
  | V2_Infof string
  | Sleep nat

text \<open>
  The state threaded through the code: the world of the collaborators, of an arbitrary
  type \<open>'w\<close>, and the events so far.
\<close>

record 'w state =
  world :: 'w
  trace :: "event list"

definition init :: "'w \<Rightarrow> 'w state" where
  "init w = \<lparr>world = w, trace = []\<rparr>"

definition emit :: "event \<Rightarrow> 'w state \<Rightarrow> 'w state" where
  "emit e s = s\<lparr>trace := trace s @ [e]\<rparr>"

definition call :: "('w \<Rightarrow> 'r \<times> 'w) \<Rightarrow> ('r \<Rightarrow> event) \<Rightarrow> 'w state \<Rightarrow> 'r \<times> 'w state" where
  "call f ev s =
     (case f (world s) of (r, w') \<Rightarrow> (r, \<lparr>world = w', trace = trace s @ [ev r]\<rparr>))"

section \<open>The master configuration and its collaborators\<close>

text \<open>
  \<^verbatim>\<open>MasterConfig\<close> gives the options and the clients. The clients, the helpers of the
  packages \<^verbatim>\<open>policy\<close>, \<^verbatim>\<open>admin\<close>, \<^verbatim>\<open>legacyclient\<close> and the cluster policy registry are
  outside the file: each is a function of the world that returns its outcome and the
  next world, so that every behaviour of a collaborator is covered. The bootstrap
  tables of the packages \<^verbatim>\<open>bootstrappolicy\<close> and \<^verbatim>\<open>kbootstrappolicy\<close> and the two
  conversion functions are pure and are parameters as well. The Go maps
  \<^verbatim>\<open>NamespaceRoles()\<close> and \<^verbatim>\<open>NamespaceRoleBindings()\<close> are association lists, in the
  order in which the \<^verbatim>\<open>range\<close> loop happens to visit them. \<open>DefaultRetry\<close> is the number
  of steps of \<^verbatim>\<open>retry.DefaultRetry\<close>.
\<close>

record 'w MasterConfig =
  OpenShiftSharedResourcesNamespace :: string
  OpenShiftInfrastructureNamespace :: string
  BootstrapPolicyFile :: string
  Namespaces_Get :: "string \<Rightarrow> 'w \<Rightarrow> (api_error + Namespace) \<times> 'w"
  Namespaces_Create :: "Namespace \<Rightarrow> 'w \<Rightarrow> (api_error + Namespace) \<times> 'w"
  Namespaces_Update :: "Namespace \<Rightarrow> 'w \<Rightarrow> (api_error + Namespace) \<times> 'w"
  RunReconcileClusterRoles :: "ReconcileOptions \<Rightarrow> 'w \<Rightarrow> api_error option \<times> 'w"
  RunReconcileClusterRoleBindings :: "ReconcileOptions \<Rightarrow> 'w \<Rightarrow> api_error option \<times> 'w"
  AddRole :: "RoleModificationOptions \<Rightarrow> 'w \<Rightarrow> api_error option \<times> 'w"
  SCC_Create :: "SecurityContextConstraints \<Rightarrow> 'w \<Rightarrow> api_error option \<times> 'w"
  NewREST :: "'w \<Rightarrow> api_error option \<times> 'w"
  GetClusterPolicy :: "string \<Rightarrow> 'w \<Rightarrow> api_error option \<times> 'w"
  OverwriteBootstrapPolicy :: "string \<Rightarrow> 'w \<Rightarrow> api_error option \<times> 'w"
  Roles_Create :: "string \<Rightarrow> Role \<Rightarrow> 'w \<Rightarrow> api_error option \<times> 'w"
  RoleBindings_Create :: "string \<Rightarrow> RoleBinding \<Rightarrow> 'w \<Rightarrow> api_error option \<times> 'w"
  Convert_rbac_Role_To_authorization_Role :: "RbacRole \<Rightarrow> api_error + Role"
  Convert_rbac_RoleBinding_To_authorization_RoleBinding ::
    "RbacRoleBinding \<Rightarrow> api_error + RoleBinding"
  ControllerRoles :: "ClusterRole list"
  ControllerRoleBindings :: "ClusterRoleBinding list"
  GetBootstrapServiceAccountProjectRoleBindings :: "string \<Rightarrow> RoleBinding list"
  GetBoostrapSCCAccess :: "string \<Rightarrow> string list \<times> string list"
  GetBootstrapSecurityContextConstraints ::
    "string list \<Rightarrow> string list \<Rightarrow> SecurityContextConstraints list"
  NamespaceRoles :: "(string \<times> RbacRole list) list"
  NamespaceRoleBindings :: "(string \<times> RbacRoleBinding list) list"
  DiscoveryRoleName :: string
  PolicyName :: string
  DefaultRetry :: nat


section \<open>Service-account role bindings of a namespace\<close>

text \<open>
  Modelled from the spec: the retry policy primitive \<^verbatim>\<open>retry.RetryOnConflict\<close> is not in
  the source file. Given a fallible mutation, it retries it on version-conflict up to a
  bounded count and returns the terminal error otherwise. The count is the first
  argument; \<open>lastConflictErr\<close> is what is returned when the count is used up. The
  backoff between two attempts is not recorded.
\<close>

fun RetryOnConflict ::
  "nat \<Rightarrow> api_error option \<Rightarrow> ('s \<Rightarrow> api_error option \<times> 's) \<Rightarrow> 's \<Rightarrow> api_error option \<times> 's"
where
  "RetryOnConflict 0 lastConflictErr fn s = (lastConflictErr, s)"
| "RetryOnConflict (Suc n) lastConflictErr fn s =
     (case fn s of
        (None, s') \<Rightarrow> (None, s')
      | (Some err, s') \<Rightarrow>
          if IsConflict (Some err) then RetryOnConflict n (Some err) fn s'
          else (Some err, s'))"

definition ServiceAccountRolesInitializedAnnotation :: string where
  "ServiceAccountRolesInitializedAnnotation = ''openshift.io/sa.initialized-roles''"

definition addRole :: "Namespace \<Rightarrow> RoleBinding \<Rightarrow> RoleModificationOptions" where
  "addRole namespace binding =
     \<lparr>RoleName = Ref_Name (RoleRef binding),
      RoleNamespace = Ref_Namespace (RoleRef binding),
      RoleBindingAccessor = Namespace_Name namespace,
      Mod_Subjects = Subjects binding\<rparr>"

text \<open>
  One grant, the expression of line 130:
  \<^verbatim>\<open>retry.RetryOnConflict(retry.DefaultRetry, func() error { return addRole.AddRole() })\<close>.
\<close>

definition grant ::
  "'w MasterConfig \<Rightarrow> Namespace \<Rightarrow> RoleBinding \<Rightarrow> 'w state \<Rightarrow> api_error option \<times> 'w state"
where
  "grant c namespace binding s =
     RetryOnConflict (DefaultRetry c) None
       (call (AddRole c (addRole namespace binding)) (AddRoleCall (addRole namespace binding))) s"

text \<open>
  The loop of lines 123 to 134 over the bootstrap table, with the flag \<^verbatim>\<open>hasErrors\<close> as
  an accumulator.
\<close>

fun addRoles ::
  "'w MasterConfig \<Rightarrow> Namespace \<Rightarrow> RoleBinding list \<Rightarrow> bool \<Rightarrow> 'w state \<Rightarrow> bool \<times> 'w state"
where
  "addRoles c namespace [] hasErrors s = (hasErrors, s)"
| "addRoles c namespace (binding # bindings) hasErrors s =
     (case grant c namespace binding s of
        (Some err, s') \<Rightarrow>
          addRoles c namespace bindings True
            (emit (Errorf ''Could not add service accounts to the %v role in the %q namespace: %v\<newline>'') s')
      | (None, s') \<Rightarrow> addRoles c namespace bindings hasErrors s')"

definition setInitialized :: "Namespace \<Rightarrow> Namespace" where
  "setInitialized namespace =
     namespace\<lparr>Annotations :=
       Some ((case Annotations namespace of None \<Rightarrow> Map.empty | Some m \<Rightarrow> m)
              (ServiceAccountRolesInitializedAnnotation \<mapsto> ''true''))\<rparr>"

text \<open>
  The function mutates the namespace object it is given; the object after the call is
  returned beside the state.
\<close>

definition ensureNamespaceServiceAccountRoleBindings ::
  "'w MasterConfig \<Rightarrow> Namespace \<Rightarrow> 'w state \<Rightarrow> Namespace \<times> 'w state"
where
  "ensureNamespaceServiceAccountRoleBindings c namespace s =
     (if annotation namespace ServiceAccountRolesInitializedAnnotation = ''true''
      then (namespace, s)
      else
        (case addRoles c namespace
                (GetBootstrapServiceAccountProjectRoleBindings c (Namespace_Name namespace))
                False s of
           (hasErrors, s1) \<Rightarrow>
             if hasErrors then (namespace, s1)
             else
               (case call (Namespaces_Update c (setInitialized namespace))
                       (NamespaceUpdate (setInitialized namespace)) s1 of
                  (r, s2) \<Rightarrow>
                    if err_of r \<noteq> None \<and> \<not> IsConflict (err_of r)
                    then (setInitialized namespace,
                          emit (Errorf ''Error recording adding service account roles to %q namespace: %v'') s2)
                    else (setInitialized namespace, s2))))"

section \<open>Ensuring the namespaces\<close>

definition newNamespace :: "string \<Rightarrow> Namespace" where
  "newNamespace name = \<lparr>Namespace_Name = name, Annotations = None\<rparr>"

definition ensureOpenShiftSharedResourcesNamespace :: "'w MasterConfig \<Rightarrow> 'w state \<Rightarrow> 'w state" where
  "ensureOpenShiftSharedResourcesNamespace c s =
     (case call (Namespaces_Get c (OpenShiftSharedResourcesNamespace c))
             (NamespaceGet (OpenShiftSharedResourcesNamespace c)) s of
        (r, s1) \<Rightarrow>
          if IsNotFound (err_of r) then
            (case call (Namespaces_Create c (newNamespace (OpenShiftSharedResourcesNamespace c)))
                    (NamespaceCreate (newNamespace (OpenShiftSharedResourcesNamespace c))) s1 of
               (Inl createErr, s2) \<Rightarrow>
                 emit (Errorf ''Error creating namespace: %v due to %v\<newline>'') s2
             | (Inr namespace, s2) \<Rightarrow>
                 snd (ensureNamespaceServiceAccountRoleBindings c namespace s2))
          else s1)"

text \<open>
  Lines 44 to 58 of \<^verbatim>\<open>ensureOpenShiftInfraNamespace\<close>: the namespace that the rest of the
  function works on, or \<open>None\<close> where the function returns early.
\<close>

definition infraNamespace :: "'w MasterConfig \<Rightarrow> 'w state \<Rightarrow> Namespace option \<times> 'w state" where
  "infraNamespace c s =
     (let ns = OpenShiftInfrastructureNamespace c in
      case call (Namespaces_Create c (newNamespace ns)) (NamespaceCreate (newNamespace ns)) s of
        (r, s1) \<Rightarrow>
          if IsAlreadyExists (err_of r) then
            (case call (Namespaces_Get c ns) (NamespaceGet ns) s1 of
               (Inl err, s2) \<Rightarrow> (None, emit (Errorf ''Error getting namespace %s: %v'') s2)
             | (Inr namespace, s2) \<Rightarrow> (Some namespace, s2))
          else
            (case r of
               Inl err \<Rightarrow> (None, emit (Errorf ''Error creating namespace %s: %v'') s1)
             | Inr namespace \<Rightarrow> (Some namespace, s1)))"

definition reconcileOptions :: "string \<Rightarrow> ReconcileOptions" where
  "reconcileOptions name = \<lparr>RolesToReconcile = [name], Confirmed = True, Union_flag = True\<rparr>"

text \<open>
  The two loops of lines 60 to 83 build their options with \<^verbatim>\<open>Confirmed: true\<close> and
  \<^verbatim>\<open>Union: true\<close> and one name to reconcile; a failed reconciliation is logged and the loop
  goes on.
\<close>

fun reconcileControllerRoles :: "'w MasterConfig \<Rightarrow> ClusterRole list \<Rightarrow> 'w state \<Rightarrow> 'w state" where
  "reconcileControllerRoles c [] s = s"
| "reconcileControllerRoles c (role # roles) s =
     (case call (RunReconcileClusterRoles c (reconcileOptions (ClusterRole_Name role)))
             (ReconcileClusterRoles (reconcileOptions (ClusterRole_Name role))) s of
        (Some err, s') \<Rightarrow>
          reconcileControllerRoles c roles (emit (Errorf ''Could not reconcile %v: %v\<newline>'') s')
      | (None, s') \<Rightarrow> reconcileControllerRoles c roles s')"

fun reconcileControllerRoleBindings ::
  "'w MasterConfig \<Rightarrow> ClusterRoleBinding list \<Rightarrow> 'w state \<Rightarrow> 'w state"
where
  "reconcileControllerRoleBindings c [] s = s"
| "reconcileControllerRoleBindings c (roleBinding # roleBindings) s =
     (case call (RunReconcileClusterRoleBindings c
                   (reconcileOptions (Ref_Name (ClusterRoleBinding_RoleRef roleBinding))))
             (ReconcileClusterRoleBindings
                   (reconcileOptions (Ref_Name (ClusterRoleBinding_RoleRef roleBinding)))) s of
        (Some err, s') \<Rightarrow>
          reconcileControllerRoleBindings c roleBindings
            (emit (Errorf ''Could not reconcile %v: %v\<newline>'') s')
      | (None, s') \<Rightarrow> reconcileControllerRoleBindings c roleBindings s')"

definition ensureOpenShiftInfraNamespace :: "'w MasterConfig \<Rightarrow> 'w state \<Rightarrow> 'w state" where
  "ensureOpenShiftInfraNamespace c s =
     (case infraNamespace c s of
        (None, s') \<Rightarrow> s'
      | (Some namespace, s') \<Rightarrow>
          snd (ensureNamespaceServiceAccountRoleBindings c namespace
                 (reconcileControllerRoleBindings c (ControllerRoleBindings c)
                    (reconcileControllerRoles c (ControllerRoles c) s'))))"




section \<open>Default security context constraints\<close>

text \<open>The loop of lines 155 to 165.\<close>

fun createSCCs ::
  "'w MasterConfig \<Rightarrow> SecurityContextConstraints list \<Rightarrow> 'w state \<Rightarrow> 'w state"
where
  "createSCCs c [] s = s"
| "createSCCs c (scc # sccs) s =
     (case call (SCC_Create c scc) (SCCCreate scc) s of
        (err, s') \<Rightarrow>
          if IsAlreadyExists err then createSCCs c sccs s'
          else if err \<noteq> None then
            createSCCs c sccs
              (emit (Errorf ''Unable to create default security context constraint %s.  Got error: %v'') s')
          else
            createSCCs c sccs (emit (Infof ''Created default security context constraint %s'') s'))"

definition ensureDefaultSecurityContextConstraints :: "'w MasterConfig \<Rightarrow> 'w state \<Rightarrow> 'w state" where
  "ensureDefaultSecurityContextConstraints c s =
     (let ns = OpenShiftInfrastructureNamespace c in
      case GetBoostrapSCCAccess c ns of
        (bootstrapSCCGroups, bootstrapSCCUsers) \<Rightarrow>
          createSCCs c
            (GetBootstrapSecurityContextConstraints c bootstrapSCCGroups bootstrapSCCUsers) s)"

section \<open>Cluster policy\<close>

text \<open>
  The loops of lines 189 to 201 over the namespaced roles, the inner one first, and of
  lines 204 to 216 over the namespaced role bindings.
\<close>

fun createRoles :: "'w MasterConfig \<Rightarrow> string \<Rightarrow> RbacRole list \<Rightarrow> 'w state \<Rightarrow> 'w state" where
  "createRoles c namespace [] s = s"
| "createRoles c namespace (rbacRole # roles) s =
     (case Convert_rbac_Role_To_authorization_Role c rbacRole of
        Inl err \<Rightarrow>
          createRoles c namespace roles
            (emit (HandleError ''unable to convert role.%s/%s in %v: %v'') s)
      | Inr role \<Rightarrow>
          (case call (Roles_Create c namespace role) (RoleCreate namespace role) s of
             (Some err, s') \<Rightarrow>
               createRoles c namespace roles
                 (emit (HandleError ''unable to reconcile role.%s/%s in %v: %v'') s')
           | (None, s') \<Rightarrow> createRoles c namespace roles s'))"

fun createNamespaceRoles ::
  "'w MasterConfig \<Rightarrow> (string \<times> RbacRole list) list \<Rightarrow> 'w state \<Rightarrow> 'w state"
where
  "createNamespaceRoles c [] s = s"
| "createNamespaceRoles c ((namespace, roles) # rest) s =
     createNamespaceRoles c rest (createRoles c namespace roles s)"

fun createRoleBindings ::
  "'w MasterConfig \<Rightarrow> string \<Rightarrow> RbacRoleBinding list \<Rightarrow> 'w state \<Rightarrow> 'w state"
where
  "createRoleBindings c namespace [] s = s"
| "createRoleBindings c namespace (rbacRoleBinding # roleBindings) s =
     (case Convert_rbac_RoleBinding_To_authorization_RoleBinding c rbacRoleBinding of
        Inl err \<Rightarrow>
          createRoleBindings c namespace roleBindings
            (emit (HandleError ''unable to convert rolebinding.%s/%s in %v: %v'') s)
      | Inr roleBinding \<Rightarrow>
          (case call (RoleBindings_Create c namespace roleBinding)
                  (RoleBindingCreate namespace roleBinding) s of
             (Some err, s') \<Rightarrow>
               createRoleBindings c namespace roleBindings
                 (emit (HandleError ''unable to reconcile rolebinding.%s/%s in %v: %v'') s')
           | (None, s') \<Rightarrow> createRoleBindings c namespace roleBindings s'))"

fun createNamespaceRoleBindings ::
  "'w MasterConfig \<Rightarrow> (string \<times> RbacRoleBinding list) list \<Rightarrow> 'w state \<Rightarrow> 'w state"
where
  "createNamespaceRoleBindings c [] s = s"
| "createNamespaceRoleBindings c ((namespace, roleBindings) # rest) s =
     createNamespaceRoleBindings c rest (createRoleBindings c namespace roleBindings s)"

text \<open>The branch of lines 178 to 220, on the error of the existence check.\<close>

definition bootstrapPolicy :: "'w MasterConfig \<Rightarrow> api_error option \<Rightarrow> 'w state \<Rightarrow> 'w state" where
  "bootstrapPolicy c err s =
     (if IsNotFound err then
        (let s1 = emit (Infof ''No cluster policy found.  Creating bootstrap policy based on: %v'') s;
             s2 = (case call (OverwriteBootstrapPolicy c (BootstrapPolicyFile c))
                          (OverwriteBootstrapPolicyCall (BootstrapPolicyFile c)) s1 of
                     (Some err, s') \<Rightarrow> emit (Errorf ''Error creating bootstrap policy: %v'') s'
                   | (None, s') \<Rightarrow> s');
             s3 = createNamespaceRoles c (NamespaceRoles c) s2
         in createNamespaceRoleBindings c (NamespaceRoleBindings c) s3)
      else emit (V2_Infof ''Ignoring bootstrap policy file because cluster policy found'') s)"

text \<open>The reconciliation of lines 222 to 246.\<close>

definition reconcileDiscovery :: "'w MasterConfig \<Rightarrow> 'w state \<Rightarrow> 'w state" where
  "reconcileDiscovery c s =
     (let s1 = (case call (RunReconcileClusterRoles c (reconcileOptions (DiscoveryRoleName c)))
                       (ReconcileClusterRoles (reconcileOptions (DiscoveryRoleName c))) s of
                  (Some err, s') \<Rightarrow> emit (Errorf ''Could not auto reconcile roles: %v\<newline>'') s'
                | (None, s') \<Rightarrow> s')
      in case call (RunReconcileClusterRoleBindings c (reconcileOptions (DiscoveryRoleName c)))
                (ReconcileClusterRoleBindings (reconcileOptions (DiscoveryRoleName c))) s1 of
           (Some err, s') \<Rightarrow> emit (Errorf ''Could not auto reconcile role bindings: %v\<newline>'') s'
         | (None, s') \<Rightarrow> s')"

definition ensureComponentAuthorizationRules :: "'w MasterConfig \<Rightarrow> 'w state \<Rightarrow> 'w state" where
  "ensureComponentAuthorizationRules c s =
     (case call (NewREST c) NewRESTCall s of
        (Some err, s0) \<Rightarrow> emit (Errorf ''Error creating policy storage: %v'') s0
      | (None, s0) \<Rightarrow>
          (case call (GetClusterPolicy c (PolicyName c)) (GetClusterPolicyCall (PolicyName c)) s0 of
             (err, s1) \<Rightarrow> reconcileDiscovery c (bootstrapPolicy c err s1)))"

section \<open>Kinds of events\<close>


fun is_NamespaceCreate :: "event \<Rightarrow> bool" where
  "is_NamespaceCreate (NamespaceCreate _ _) = True"
| "is_NamespaceCreate _ = False"

fun is_NamespaceUpdate :: "event \<Rightarrow> bool" where
  "is_NamespaceUpdate (NamespaceUpdate _ _) = True"
| "is_NamespaceUpdate _ = False"

fun is_AddRoleCall :: "event \<Rightarrow> bool" where
  "is_AddRoleCall (AddRoleCall _ _) = True"
| "is_AddRoleCall _ = False"

fun is_Errorf :: "event \<Rightarrow> bool" where
  "is_Errorf (Errorf _) = True"
| "is_Errorf _ = False"

fun is_OverwriteBootstrapPolicyCall :: "event \<Rightarrow> bool" where
  "is_OverwriteBootstrapPolicyCall (OverwriteBootstrapPolicyCall _ _) = True"
| "is_OverwriteBootstrapPolicyCall _ = False"

text \<open>The events of the conversion of the namespaced roles and role bindings.\<close>

fun is_legacy :: "event \<Rightarrow> bool" where
  "is_legacy (RoleCreate _ _ _) = True"
| "is_legacy (RoleBindingCreate _ _ _) = True"
| "is_legacy (HandleError _) = True"
| "is_legacy _ = False"

fun is_Reconcile :: "event \<Rightarrow> bool" where
  "is_Reconcile (ReconcileClusterRoles _ _) = True"
| "is_Reconcile (ReconcileClusterRoleBindings _ _) = True"
| "is_Reconcile _ = False"

section \<open>A concrete configuration\<close>

text \<open>
  A configuration on which the functions can be run: the world counts the calls it has
  served, every call succeeds and the cluster policy document is present. Other
  behaviours are record updates of it.
\<close>

definition demoBindings :: "string \<Rightarrow> RoleBinding list" where
  "demoBindings ns =
     [\<lparr>RoleBinding_Name = ''system:image-pullers'',
       RoleRef = \<lparr>Ref_Name = ''system:image-puller'', Ref_Namespace = []\<rparr>,
       Subjects = [''system:serviceaccounts:'' @ ns]\<rparr>,
      \<lparr>RoleBinding_Name = ''system:deployers'',
       RoleRef = \<lparr>Ref_Name = ''system:deployer'', Ref_Namespace = []\<rparr>,
       Subjects = [''system:serviceaccount:'' @ ns @ '':deployer'']\<rparr>]"

definition demo :: "nat MasterConfig" where
  "demo =
     \<lparr>OpenShiftSharedResourcesNamespace = ''openshift'',
      OpenShiftInfrastructureNamespace = ''openshift-infra'',
      BootstrapPolicyFile = ''policy.json'',
      Namespaces_Get = (\<lambda>name w. (Inr (newNamespace name), Suc w)),
      Namespaces_Create = (\<lambda>ns w. (Inr ns, Suc w)),
      Namespaces_Update = (\<lambda>ns w. (Inr ns, Suc w)),
      RunReconcileClusterRoles = (\<lambda>opts w. (None, Suc w)),
      RunReconcileClusterRoleBindings = (\<lambda>opts w. (None, Suc w)),
      AddRole = (\<lambda>opts w. (None, Suc w)),
      SCC_Create = (\<lambda>scc w. (None, Suc w)),
      NewREST = (\<lambda>w. (None, Suc w)),
      GetClusterPolicy = (\<lambda>name w. (None, Suc w)),
      OverwriteBootstrapPolicy = (\<lambda>file w. (None, Suc w)),
      Roles_Create = (\<lambda>ns role w. (None, Suc w)),
      RoleBindings_Create = (\<lambda>ns roleBinding w. (None, Suc w)),
      Convert_rbac_Role_To_authorization_Role = (\<lambda>r. Inr \<lparr>Role_Name = RbacRole_Name r\<rparr>),
      Convert_rbac_RoleBinding_To_authorization_RoleBinding =
        (\<lambda>b. Inr \<lparr>RoleBinding_Name = RbacRoleBinding_Name b,
                   RoleRef = \<lparr>Ref_Name = ''system:controller:bootstrap-signer'', Ref_Namespace = []\<rparr>,
                   Subjects = []\<rparr>),
      ControllerRoles = [\<lparr>ClusterRole_Name = ''system:build-controller''\<rparr>],
      ControllerRoleBindings =
        [\<lparr>ClusterRoleBinding_Name = ''system:build-controller'',
          ClusterRoleBinding_RoleRef = \<lparr>Ref_Name = ''system:build-controller'', Ref_Namespace = []\<rparr>\<rparr>],
      GetBootstrapServiceAccountProjectRoleBindings = demoBindings,
      GetBoostrapSCCAccess = (\<lambda>ns. ([''system:cluster-admins''], [''system:admin''])),
      GetBootstrapSecurityContextConstraints =
        (\<lambda>groups users. [\<lparr>SCC_Name = ''privileged''\<rparr>, \<lparr>SCC_Name = ''restricted''\<rparr>]),
      NamespaceRoles = [(''kube-public'', [\<lparr>RbacRole_Name = ''system:controller:bootstrap-signer''\<rparr>])],
      NamespaceRoleBindings =
        [(''kube-public'', [\<lparr>RbacRoleBinding_Name = ''system:controller:bootstrap-signer''\<rparr>])],
      DiscoveryRoleName = ''system:discovery'',
      PolicyName = ''default'',
      DefaultRetry = 5\<rparr>"

section \<open>Properties\<close>

subsection \<open>Calls and events\<close>

lemmas demo_fields = demo_def demoBindings_def newNamespace_def

lemma call_fst: "fst (call f ev s) = fst (f (world s))"
  by (simp add: call_def split: prod.splits)
lemma call_world: "world (snd (call f ev s)) = snd (f (world s))"
  by (simp add: call_def split: prod.splits)
lemma call_trace: "trace (snd (call f ev s)) = trace s @ [ev (fst (f (world s)))]"
  by (simp add: call_def split: prod.splits)
lemma emit_trace: "trace (emit e s) = trace s @ [e]"
  by (simp add: emit_def)
lemma emit_world: "world (emit e s) = world s"
  by (simp add: emit_def)

lemma RetryOnConflict_shape:
  "\<exists>k fin. trace (snd (RetryOnConflict n l (call f ev) s)) = trace s @ replicate k (ev (Some Conflict)) @ fin
      \<and> k + length fin \<le> n
      \<and> ((fin = [] \<and> k = n \<and> fst (RetryOnConflict n l (call f ev) s) = (if n = 0 then l else Some Conflict))
         \<or> (\<exists>x. fin = [ev x] \<and> x \<noteq> Some Conflict \<and> fst (RetryOnConflict n l (call f ev) s) = x))"
proof (induction n arbitrary: l s)
  case 0
  show ?case by simp
next
  case (Suc n)
  obtain r s' where c: "call f ev s = (r, s')" by (cases "call f ev s")
  have tr: "trace s' = trace s @ [ev r]"
    using call_trace [of f ev s] call_fst [of f ev s] c by simp
  show ?case
  proof (cases "r = Some Conflict")
    case True
    from Suc.IH [of "Some Conflict" s'] obtain k fin where
      h: "trace (snd (RetryOnConflict n (Some Conflict) (call f ev) s')) = trace s' @ replicate k (ev (Some Conflict)) @ fin"
        "k + length fin \<le> n"
        "(fin = [] \<and> k = n \<and> fst (RetryOnConflict n (Some Conflict) (call f ev) s') = (if n = 0 then Some Conflict else Some Conflict))
         \<or> (\<exists>x. fin = [ev x] \<and> x \<noteq> Some Conflict \<and> fst (RetryOnConflict n (Some Conflict) (call f ev) s') = x)"
      by blast
    have eq: "RetryOnConflict (Suc n) l (call f ev) s = RetryOnConflict n (Some Conflict) (call f ev) s'"
      using c True by (simp add: IsConflict_def)
    have "trace (snd (RetryOnConflict (Suc n) l (call f ev) s)) = trace s @ replicate (Suc k) (ev (Some Conflict)) @ fin"
      using h(1) tr True eq by simp
    moreover have "Suc k + length fin \<le> Suc n" using h(2) by simp
    moreover have "(fin = [] \<and> Suc k = Suc n \<and> fst (RetryOnConflict (Suc n) l (call f ev) s) = (if Suc n = 0 then l else Some Conflict))
         \<or> (\<exists>x. fin = [ev x] \<and> x \<noteq> Some Conflict \<and> fst (RetryOnConflict (Suc n) l (call f ev) s) = x)"
      using h(3) eq by auto
    ultimately show ?thesis by blast
  next
    case False
    have eq: "RetryOnConflict (Suc n) l (call f ev) s = (r, s')"
      using c False by (cases r) (simp_all add: IsConflict_def)
    have "trace (snd (RetryOnConflict (Suc n) l (call f ev) s)) = trace s @ replicate 0 (ev (Some Conflict)) @ [ev r]"
      using eq tr by simp
    moreover have "0 + length [ev r] \<le> Suc n" by simp
    moreover have "\<exists>x. [ev r] = [ev x] \<and> x \<noteq> Some Conflict \<and> fst (RetryOnConflict (Suc n) l (call f ev) s) = x"
      using eq False by simp
    ultimately show ?thesis by blast
  qed
qed

lemma addRoles_append:
  "addRoles c ns (xs @ ys) h s = (case addRoles c ns xs h s of (h1, s1) \<Rightarrow> addRoles c ns ys h1 s1)"
  by (induction xs arbitrary: h s) (auto split: prod.splits option.splits)

lemma addRoles_state_flag:
  "snd (addRoles c ns xs h s) = snd (addRoles c ns xs h' s)"
  by (induction xs arbitrary: h h' s) (auto split: prod.splits option.splits)

lemma addRoles_flag_index:
  "fst (addRoles c ns bs h s) =
     (h \<or> (\<exists>i<length bs. fst (grant c ns (bs ! i) (snd (addRoles c ns (take i bs) False s))) \<noteq> None))"
proof (induction bs rule: rev_induct)
  case Nil
  show ?case by simp
next
  case (snoc b bs)
  obtain h1 s1 where a: "addRoles c ns bs h s = (h1, s1)" by (cases "addRoles c ns bs h s")
  have s1: "s1 = snd (addRoles c ns bs False s)"
    using a addRoles_state_flag [of c ns bs h s False] by simp
  have h1: "h1 = (h \<or> (\<exists>i<length bs. fst (grant c ns (bs ! i) (snd (addRoles c ns (take i bs) False s))) \<noteq> None))"
    using snoc.IH a by simp
  have last: "fst (addRoles c ns (bs @ [b]) h s) = (h1 \<or> fst (grant c ns b s1) \<noteq> None)"
    using a by (auto simp: addRoles_append split: prod.splits option.splits)
  have "(\<exists>i<length (bs @ [b]). fst (grant c ns ((bs @ [b]) ! i) (snd (addRoles c ns (take i (bs @ [b])) False s))) \<noteq> None)
      = ((\<exists>i<length bs. fst (grant c ns (bs ! i) (snd (addRoles c ns (take i bs) False s))) \<noteq> None)
          \<or> fst (grant c ns b s1) \<noteq> None)"
    using s1 by (auto simp: less_Suc_eq nth_append)
  then show ?case using last h1 by blast
qed

lemma addRoles_flag_split:
  "fst (addRoles c ns bs h s) =
     (h \<or> (\<exists>xs b ys. bs = xs @ b # ys \<and> fst (grant c ns b (snd (addRoles c ns xs False s))) \<noteq> None))"
proof -
  have "(\<exists>i<length bs. fst (grant c ns (bs ! i) (snd (addRoles c ns (take i bs) False s))) \<noteq> None)
      = (\<exists>xs b ys. bs = xs @ b # ys \<and> fst (grant c ns b (snd (addRoles c ns xs False s))) \<noteq> None)"
  proof
    assume "\<exists>i<length bs. fst (grant c ns (bs ! i) (snd (addRoles c ns (take i bs) False s))) \<noteq> None"
    then obtain i where i: "i < length bs" "fst (grant c ns (bs ! i) (snd (addRoles c ns (take i bs) False s))) \<noteq> None"
      by blast
    have "bs = take i bs @ bs ! i # drop (Suc i) bs" using i(1) by (simp add: id_take_nth_drop)
    with i(2) show "\<exists>xs b ys. bs = xs @ b # ys \<and> fst (grant c ns b (snd (addRoles c ns xs False s))) \<noteq> None"
      by blast
  next
    assume "\<exists>xs b ys. bs = xs @ b # ys \<and> fst (grant c ns b (snd (addRoles c ns xs False s))) \<noteq> None"
    then obtain xs b ys where x: "bs = xs @ b # ys" "fst (grant c ns b (snd (addRoles c ns xs False s))) \<noteq> None"
      by blast
    have "length xs < length bs" "bs ! length xs = b" "take (length xs) bs = xs" using x(1) by simp_all
    with x(2) show "\<exists>i<length bs. fst (grant c ns (bs ! i) (snd (addRoles c ns (take i bs) False s))) \<noteq> None"
      by metis
  qed
  then show ?thesis using addRoles_flag_index [of c ns bs h s] by simp
qed

lemma grant_first_None:
  "0 < DefaultRetry c \<Longrightarrow> fst (AddRole c (addRole ns b) (world s)) = None \<Longrightarrow> fst (grant c ns b s) = None"
  by (cases "DefaultRetry c") (auto simp: grant_def call_def split: prod.splits option.splits)

lemma grant_first_error:
  "0 < DefaultRetry c \<Longrightarrow> fst (AddRole c (addRole ns b) (world s)) = Some e \<Longrightarrow> e \<noteq> Conflict
     \<Longrightarrow> fst (grant c ns b s) = Some e"
  by (cases "DefaultRetry c") (auto simp: grant_def call_def IsConflict_def split: prod.splits option.splits)

subsection \<open>The completion marker\<close>

text \<open>
  C3: a namespace whose annotation \<^verbatim>\<open>openshift.io/sa.initialized-roles\<close> reads \<^verbatim>\<open>true\<close>
  makes \<open>ensureNamespaceServiceAccountRoleBindings\<close> return at once: the namespace
  object, the world and the trace are what they were, so no grant is added and nothing
  is written.
\<close>

theorem C3_initialized_is_noop:
  assumes "annotation namespace ServiceAccountRolesInitializedAnnotation = ''true''"
  shows "ensureNamespaceServiceAccountRoleBindings c namespace s = (namespace, s)"
  using assms by (simp add: ensureNamespaceServiceAccountRoleBindings_def)

theorem C3_witness:
  "annotation (setInitialized (newNamespace ''default'')) ServiceAccountRolesInitializedAnnotation = ''true''
   \<and> ensureNamespaceServiceAccountRoleBindings demo (setInitialized (newNamespace ''default'')) (init 0)
       = (setInitialized (newNamespace ''default''), init 0)"
proof -
  have h: "annotation (setInitialized (newNamespace ''default'')) ServiceAccountRolesInitializedAnnotation = ''true''"
    by (simp add: setInitialized_def annotation_def)
  from C3_initialized_is_noop [OF h] h show ?thesis by simp
qed

lemma grant_trace:
  "\<exists>es. trace (snd (grant c ns b s)) = trace s @ es \<and> (\<forall>e\<in>set es. is_AddRoleCall e)"
proof -
  from RetryOnConflict_shape [of "DefaultRetry c" None "AddRole c (addRole ns b)" "AddRoleCall (addRole ns b)" s]
  obtain k fin where
    h: "trace (snd (grant c ns b s)) = trace s @ replicate k (AddRoleCall (addRole ns b) (Some Conflict)) @ fin"
       "fin = [] \<or> (\<exists>x. fin = [AddRoleCall (addRole ns b) x])"
    unfolding grant_def by blast
  have "\<forall>e\<in>set (replicate k (AddRoleCall (addRole ns b) (Some Conflict)) @ fin). is_AddRoleCall e"
    using h(2) by auto
  with h(1) show ?thesis by blast
qed

lemma addRoles_trace:
  "\<exists>es. trace (snd (addRoles c ns bs h s)) = trace s @ es \<and> (\<forall>e\<in>set es. is_AddRoleCall e \<or> is_Errorf e)"
proof (induction bs arbitrary: h s)
  case Nil
  show ?case by simp
next
  case (Cons b bs)
  obtain r s1 where g: "grant c ns b s = (r, s1)" by (cases "grant c ns b s")
  from grant_trace [of c ns b s] g obtain es1 where
    e1: "trace s1 = trace s @ es1" "\<forall>e\<in>set es1. is_AddRoleCall e" by auto
  show ?case
  proof (cases r)
    case None
    from Cons.IH [of h s1] obtain es2 where
      e2: "trace (snd (addRoles c ns bs h s1)) = trace s1 @ es2" "\<forall>e\<in>set es2. is_AddRoleCall e \<or> is_Errorf e"
      by blast
    have "trace (snd (addRoles c ns (b # bs) h s)) = trace s @ (es1 @ es2)"
      using g None e1(1) e2(1) by simp
    moreover have "\<forall>e\<in>set (es1 @ es2). is_AddRoleCall e \<or> is_Errorf e"
      using e1(2) e2(2) by auto
    ultimately show ?thesis by blast
  next
    case (Some err)
    let ?s2 = "emit (Errorf ''Could not add service accounts to the %v role in the %q namespace: %v\<newline>'') s1"
    from Cons.IH [of True ?s2] obtain es2 where
      e2: "trace (snd (addRoles c ns bs True ?s2)) = trace ?s2 @ es2" "\<forall>e\<in>set es2. is_AddRoleCall e \<or> is_Errorf e"
      by blast
    have "trace (snd (addRoles c ns (b # bs) h s)) =
            trace s @ (es1 @ Errorf ''Could not add service accounts to the %v role in the %q namespace: %v\<newline>'' # es2)"
      using g Some e1(1) e2(1) by (simp add: emit_trace)
    moreover have "\<forall>e\<in>set (es1 @ Errorf ''Could not add service accounts to the %v role in the %q namespace: %v\<newline>'' # es2).
         is_AddRoleCall e \<or> is_Errorf e"
      using e1(2) e2(2) by auto
    ultimately show ?thesis by blast
  qed
qed

lemma addRoles_no_update:
  "filter is_NamespaceUpdate (trace (snd (addRoles c ns bs h s))) = filter is_NamespaceUpdate (trace s)"
proof -
  from addRoles_trace [of c ns bs h s] obtain es where
    e: "trace (snd (addRoles c ns bs h s)) = trace s @ es" "\<forall>e\<in>set es. is_AddRoleCall e \<or> is_Errorf e"
    by blast
  have "filter is_NamespaceUpdate es = []"
  proof (rule filter_False, rule ballI)
    fix x assume "x \<in> set es"
    with e(2) have "is_AddRoleCall x \<or> is_Errorf x" by blast
    then show "\<not> is_NamespaceUpdate x" by (cases x) simp_all
  qed
  with e(1) show ?thesis by simp
qed

lemma setInitialized_annotation:
  "annotation (setInitialized ns) ServiceAccountRolesInitializedAnnotation = ''true''"
  by (simp add: setInitialized_def annotation_def)

text \<open>
  C2: when the namespace is not yet marked, the marker is written only after every grant
  of the bootstrap table has succeeded. If a single grant, run in the state that the
  grants before it left, ends in an error, the function returns the namespace object
  unchanged, its annotation still not \<^verbatim>\<open>true\<close>, and makes no update call. If every grant succeeds, the namespace object
  carries the annotation \<^verbatim>\<open>true\<close> and the update call comes after all the events of
  the grants, with no further grant after it.
\<close>

theorem C2_marker_only_after_all_grants:
  assumes "annotation namespace ServiceAccountRolesInitializedAnnotation \<noteq> ''true''"
  shows
   "((\<exists>xs b ys. GetBootstrapServiceAccountProjectRoleBindings c (Namespace_Name namespace) = xs @ b # ys
        \<and> fst (grant c namespace b (snd (addRoles c namespace xs False s))) \<noteq> None)
      \<longrightarrow> fst (ensureNamespaceServiceAccountRoleBindings c namespace s) = namespace
        \<and> annotation (fst (ensureNamespaceServiceAccountRoleBindings c namespace s))
              ServiceAccountRolesInitializedAnnotation \<noteq> ''true''
        \<and> filter is_NamespaceUpdate (trace (snd (ensureNamespaceServiceAccountRoleBindings c namespace s)))
            = filter is_NamespaceUpdate (trace s))
    \<and> ((\<forall>xs b ys. GetBootstrapServiceAccountProjectRoleBindings c (Namespace_Name namespace) = xs @ b # ys
        \<longrightarrow> fst (grant c namespace b (snd (addRoles c namespace xs False s))) = None)
      \<longrightarrow> fst (ensureNamespaceServiceAccountRoleBindings c namespace s) = setInitialized namespace
        \<and> annotation (setInitialized namespace) ServiceAccountRolesInitializedAnnotation = ''true''
        \<and> (\<exists>r post. trace (snd (ensureNamespaceServiceAccountRoleBindings c namespace s))
              = trace (snd (addRoles c namespace
                   (GetBootstrapServiceAccountProjectRoleBindings c (Namespace_Name namespace)) False s))
                @ NamespaceUpdate (setInitialized namespace) r # post
            \<and> filter is_AddRoleCall post = []))"
proof -
  let ?table = "GetBootstrapServiceAccountProjectRoleBindings c (Namespace_Name namespace)"
  obtain hasErrors s1 where a: "addRoles c namespace ?table False s = (hasErrors, s1)"
    by (cases "addRoles c namespace ?table False s")
  have flag: "hasErrors = (\<exists>xs b ys. ?table = xs @ b # ys
        \<and> fst (grant c namespace b (snd (addRoles c namespace xs False s))) \<noteq> None)"
    using addRoles_flag_split [of c namespace ?table False s] a by simp
  have nu: "filter is_NamespaceUpdate (trace s1) = filter is_NamespaceUpdate (trace s)"
    using addRoles_no_update [of c namespace ?table False s] a by simp
  have fail: "hasErrors \<Longrightarrow> ensureNamespaceServiceAccountRoleBindings c namespace s = (namespace, s1)"
    using assms a by (simp add: ensureNamespaceServiceAccountRoleBindings_def)
  have ok: "\<not> hasErrors \<Longrightarrow>
      fst (ensureNamespaceServiceAccountRoleBindings c namespace s) = setInitialized namespace
      \<and> (\<exists>r post. trace (snd (ensureNamespaceServiceAccountRoleBindings c namespace s))
              = trace s1 @ NamespaceUpdate (setInitialized namespace) r # post
            \<and> filter is_AddRoleCall post = [])"
  proof -
    assume nh: "\<not> hasErrors"
    obtain r s2 where u: "call (Namespaces_Update c (setInitialized namespace))
                       (NamespaceUpdate (setInitialized namespace)) s1 = (r, s2)"
      by (cases "call (Namespaces_Update c (setInitialized namespace))
                       (NamespaceUpdate (setInitialized namespace)) s1")
    have t2: "trace s2 = trace s1 @ [NamespaceUpdate (setInitialized namespace) r]"
      using call_trace [of "Namespaces_Update c (setInitialized namespace)"
                "NamespaceUpdate (setInitialized namespace)" s1]
            call_fst [of "Namespaces_Update c (setInitialized namespace)"
                "NamespaceUpdate (setInitialized namespace)" s1] u by simp
    show ?thesis
    proof (cases "err_of r \<noteq> None \<and> \<not> IsConflict (err_of r)")
      case True
      then have "ensureNamespaceServiceAccountRoleBindings c namespace s =
         (setInitialized namespace,
          emit (Errorf ''Error recording adding service account roles to %q namespace: %v'') s2)"
        using assms a nh u by (simp add: ensureNamespaceServiceAccountRoleBindings_def)
      then have "fst (ensureNamespaceServiceAccountRoleBindings c namespace s) = setInitialized namespace"
        and "trace (snd (ensureNamespaceServiceAccountRoleBindings c namespace s))
              = trace s1 @ NamespaceUpdate (setInitialized namespace) r
                  # [Errorf ''Error recording adding service account roles to %q namespace: %v'']"
        using t2 by (simp_all add: emit_trace)
      then show ?thesis by force
    next
      case False
      then have "ensureNamespaceServiceAccountRoleBindings c namespace s = (setInitialized namespace, s2)"
        using assms a nh u by (auto simp add: ensureNamespaceServiceAccountRoleBindings_def)
      then have "fst (ensureNamespaceServiceAccountRoleBindings c namespace s) = setInitialized namespace"
        and "trace (snd (ensureNamespaceServiceAccountRoleBindings c namespace s))
              = trace s1 @ NamespaceUpdate (setInitialized namespace) r # []"
        using t2 by simp_all
      then show ?thesis by force
    qed
  qed
  show ?thesis
  proof (intro conjI impI)
    assume "\<exists>xs b ys. ?table = xs @ b # ys
        \<and> fst (grant c namespace b (snd (addRoles c namespace xs False s))) \<noteq> None"
    then have "hasErrors" using flag by simp
    then show "fst (ensureNamespaceServiceAccountRoleBindings c namespace s) = namespace"
      and "annotation (fst (ensureNamespaceServiceAccountRoleBindings c namespace s))
              ServiceAccountRolesInitializedAnnotation \<noteq> ''true''"
      and "filter is_NamespaceUpdate (trace (snd (ensureNamespaceServiceAccountRoleBindings c namespace s)))
            = filter is_NamespaceUpdate (trace s)"
      using fail nu assms by simp_all
  next
    assume allok: "\<forall>xs b ys. ?table = xs @ b # ys
        \<longrightarrow> fst (grant c namespace b (snd (addRoles c namespace xs False s))) = None"
    have nh: "\<not> hasErrors"
    proof
      assume hasErrors
      then obtain xs b ys where x: "?table = xs @ b # ys"
        "fst (grant c namespace b (snd (addRoles c namespace xs False s))) \<noteq> None"
        unfolding flag by blast
      from allok x(1) have "fst (grant c namespace b (snd (addRoles c namespace xs False s))) = None"
        by blast
      with x(2) show False by simp
    qed
    from ok [OF nh] a
    show "fst (ensureNamespaceServiceAccountRoleBindings c namespace s) = setInitialized namespace"
      and "\<exists>r post. trace (snd (ensureNamespaceServiceAccountRoleBindings c namespace s))
              = trace (snd (addRoles c namespace ?table False s))
                @ NamespaceUpdate (setInitialized namespace) r # post
            \<and> filter is_AddRoleCall post = []"
      by simp_all
    show "annotation (setInitialized namespace) ServiceAccountRolesInitializedAnnotation = ''true''"
      by (rule setInitialized_annotation)
  qed
qed

theorem C2_witness:
  "annotation (newNamespace ''default'') ServiceAccountRolesInitializedAnnotation \<noteq> ''true''
   \<and> fst (ensureNamespaceServiceAccountRoleBindings
            (demo\<lparr>AddRole := (\<lambda>opts w. (if w = 1 then Some OtherError else None, Suc w))\<rparr>)
            (newNamespace ''default'') (init 0)) = newNamespace ''default''
   \<and> filter is_NamespaceUpdate (trace (snd (ensureNamespaceServiceAccountRoleBindings
            (demo\<lparr>AddRole := (\<lambda>opts w. (if w = 1 then Some OtherError else None, Suc w))\<rparr>)
            (newNamespace ''default'') (init 0)))) = []
   \<and> fst (ensureNamespaceServiceAccountRoleBindings demo (newNamespace ''default'') (init 0))
       = setInitialized (newNamespace ''default'')"
proof -
  let ?ns = "newNamespace ''default''"
  let ?bad = "demo\<lparr>AddRole := (\<lambda>opts w. (if w = 1 then Some OtherError else None, Suc w))\<rparr>"
  have h: "annotation ?ns ServiceAccountRolesInitializedAnnotation \<noteq> ''true''"
    by (simp add: annotation_def newNamespace_def)
  have tbl: "GetBootstrapServiceAccountProjectRoleBindings ?bad (Namespace_Name ?ns)
      = [hd (demoBindings ''default'')] @ hd (tl (demoBindings ''default'')) # []"
    by (simp add: demo_fields)
  have w1: "world (snd (addRoles ?bad ?ns [hd (demoBindings ''default'')] False (init 0))) = 1"
    by (simp add: demo_fields grant_def call_def init_def eval_nat_numeral)
  have "fst (grant ?bad ?ns (hd (tl (demoBindings ''default'')))
               (snd (addRoles ?bad ?ns [hd (demoBindings ''default'')] False (init 0)))) = Some OtherError"
  proof (rule grant_first_error)
    show "0 < DefaultRetry ?bad" by (simp add: demo_def)
    show "fst (AddRole ?bad (addRole ?ns (hd (tl (demoBindings ''default''))))
             (world (snd (addRoles ?bad ?ns [hd (demoBindings ''default'')] False (init 0))))) = Some OtherError"
      unfolding w1 by (simp add: demo_def)
    show "OtherError \<noteq> Conflict" by simp
  qed
  then have g: "fst (grant ?bad ?ns (hd (tl (demoBindings ''default'')))
               (snd (addRoles ?bad ?ns [hd (demoBindings ''default'')] False (init 0)))) \<noteq> None"
    by (simp only: option.distinct not_False_eq_True)
  have ex: "\<exists>xs b ys. GetBootstrapServiceAccountProjectRoleBindings ?bad (Namespace_Name ?ns) = xs @ b # ys
        \<and> fst (grant ?bad ?ns b (snd (addRoles ?bad ?ns xs False (init 0)))) \<noteq> None"
    by (intro exI conjI) (rule tbl, rule g)
  have ok: "\<forall>xs b ys. GetBootstrapServiceAccountProjectRoleBindings demo (Namespace_Name ?ns) = xs @ b # ys
        \<longrightarrow> fst (grant demo ?ns b (snd (addRoles demo ?ns xs False (init 0)))) = None"
    by (intro allI impI, rule grant_first_None) (simp_all add: demo_def)
  have t0: "trace (init 0 :: nat state) = []" by (simp add: init_def)
  note bad = C2_marker_only_after_all_grants [OF h, of ?bad "init 0", THEN conjunct1, THEN mp, OF ex,
                unfolded t0 filter.simps]
  note good = C2_marker_only_after_all_grants [OF h, of demo "init 0", THEN conjunct2, THEN mp, OF ok,
                THEN conjunct1]
  show ?thesis
    by (intro conjI)
       (rule h, rule bad [THEN conjunct1], rule bad [THEN conjunct2, THEN conjunct2], rule good)
qed

subsection \<open>Retrying and continuing the grants\<close>

lemma grant_shape:
  "\<exists>k fin. trace (snd (grant c ns b s))
        = trace s @ replicate k (AddRoleCall (addRole ns b) (Some Conflict)) @ fin
      \<and> k + length fin \<le> DefaultRetry c
      \<and> ((fin = [] \<and> k = DefaultRetry c
            \<and> fst (grant c ns b s) = (if DefaultRetry c = 0 then None else Some Conflict))
         \<or> (\<exists>x. fin = [AddRoleCall (addRole ns b) x] \<and> x \<noteq> Some Conflict
               \<and> fst (grant c ns b s) = x))"
  unfolding grant_def
  by (rule RetryOnConflict_shape)

lemma grant_attempts_once:
  assumes "0 < DefaultRetry c"
  shows "\<exists>r. AddRoleCall (addRole ns b) r \<in> set (trace (snd (grant c ns b s)))"
proof -
  from grant_shape [of c ns b s] obtain k fin where
    t: "trace (snd (grant c ns b s)) = trace s @ replicate k (AddRoleCall (addRole ns b) (Some Conflict)) @ fin"
    and d: "(fin = [] \<and> k = DefaultRetry c) \<or> (\<exists>x. fin = [AddRoleCall (addRole ns b) x])"
    by blast
  from d show ?thesis
  proof
    assume "fin = [] \<and> k = DefaultRetry c"
    with assms have "0 < k" by simp
    then have "AddRoleCall (addRole ns b) (Some Conflict) \<in> set (trace (snd (grant c ns b s)))"
      using t by simp
    then show ?thesis by blast
  next
    assume "\<exists>x. fin = [AddRoleCall (addRole ns b) x]"
    then obtain x where "fin = [AddRoleCall (addRole ns b) x]" by blast
    then have "AddRoleCall (addRole ns b) x \<in> set (trace (snd (grant c ns b s)))"
      using t by simp
    then show ?thesis by blast
  qed
qed

lemma addRoles_keeps:
  "e \<in> set (trace s) \<Longrightarrow> e \<in> set (trace (snd (addRoles c ns bs h s)))"
  using addRoles_trace [of c ns bs h s] by auto

lemma addRoles_step:
  "addRoles c ns (xs @ b # ys) h s =
     (case addRoles c ns xs h s of
        (h1, s1) \<Rightarrow>
          (case grant c ns b s1 of
             (None, s2) \<Rightarrow> addRoles c ns ys h1 s2
           | (Some err, s2) \<Rightarrow>
               addRoles c ns ys True
                 (emit (Errorf ''Could not add service accounts to the %v role in the %q namespace: %v\<newline>'') s2)))"
  by (simp add: addRoles_append split: prod.splits option.splits)

lemma addRoles_attempts_all:
  assumes "0 < DefaultRetry c" and "b \<in> set bs"
  shows "\<exists>r. AddRoleCall (addRole ns b) r \<in> set (trace (snd (addRoles c ns bs h s)))"
proof -
  from assms(2) obtain xs ys where bs: "bs = xs @ b # ys" by (auto simp: in_set_conv_decomp)
  obtain h1 s1 where a: "addRoles c ns xs h s = (h1, s1)" by (cases "addRoles c ns xs h s")
  obtain r s2 where g: "grant c ns b s1 = (r, s2)" by (cases "grant c ns b s1")
  from grant_attempts_once [OF assms(1), of ns b s1] g obtain x where
    x: "AddRoleCall (addRole ns b) x \<in> set (trace s2)" by auto
  show ?thesis
  proof (cases r)
    case None
    then have "addRoles c ns bs h s = addRoles c ns ys h1 s2"
      using bs a g by (simp add: addRoles_step)
    with addRoles_keeps [OF x, of c ns ys h1] show ?thesis by auto
  next
    case (Some err)
    let ?s3 = "emit (Errorf ''Could not add service accounts to the %v role in the %q namespace: %v\<newline>'') s2"
    have "addRoles c ns bs h s = addRoles c ns ys True ?s3"
      using bs a g Some by (simp add: addRoles_step)
    moreover have "AddRoleCall (addRole ns b) x \<in> set (trace ?s3)"
      using x by (simp add: emit_trace)
    ultimately show ?thesis using addRoles_keeps [of _ ?s3 c ns ys True] by auto
  qed
qed

text \<open>
  C8: one grant makes at most \<open>DefaultRetry\<close> attempts, each attempt but the last
  answered by a version conflict; an answer that is not a conflict ends the grant and is
  its result. In the loop, the grant at any position of the table is run in the state
  left by the grants before it, whatever their outcomes, and its error is logged before
  the loop goes on with the remaining grants; so every binding of the table is attempted.
\<close>

theorem C8_retry_on_conflict_and_continue:
  "(\<exists>k fin. trace (snd (grant c namespace b s))
        = trace s @ replicate k (AddRoleCall (addRole namespace b) (Some Conflict)) @ fin
      \<and> k + length fin \<le> DefaultRetry c
      \<and> ((fin = [] \<and> k = DefaultRetry c
            \<and> fst (grant c namespace b s) = (if DefaultRetry c = 0 then None else Some Conflict))
         \<or> (\<exists>x. fin = [AddRoleCall (addRole namespace b) x] \<and> x \<noteq> Some Conflict
               \<and> fst (grant c namespace b s) = x)))
   \<and> addRoles c namespace (xs @ b # ys) h s =
       (case addRoles c namespace xs h s of
          (h1, s1) \<Rightarrow>
            (case grant c namespace b s1 of
               (None, s2) \<Rightarrow> addRoles c namespace ys h1 s2
             | (Some err, s2) \<Rightarrow>
                 addRoles c namespace ys True
                   (emit (Errorf ''Could not add service accounts to the %v role in the %q namespace: %v\<newline>'') s2)))
   \<and> (0 < DefaultRetry c \<longrightarrow>
        (\<forall>b' \<in> set bs. \<exists>r. AddRoleCall (addRole namespace b') r
             \<in> set (trace (snd (addRoles c namespace bs h s)))))"
  using grant_shape [of c namespace b s] addRoles_step [of c namespace xs b ys h s]
    addRoles_attempts_all [of c _ bs namespace h s]
  by blast

theorem C8_witness:
  "0 < DefaultRetry (demo\<lparr>AddRole := (\<lambda>opts w.
          (if w = 0 then Some Conflict else if w = 1 then Some OtherError else None, Suc w))\<rparr>)
   \<and> trace (snd (addRoles (demo\<lparr>AddRole := (\<lambda>opts w.
          (if w = 0 then Some Conflict else if w = 1 then Some OtherError else None, Suc w))\<rparr>)
        (newNamespace ''default'') (demoBindings ''default'') False (init 0)))
      = [AddRoleCall (addRole (newNamespace ''default'') (hd (demoBindings ''default''))) (Some Conflict),
         AddRoleCall (addRole (newNamespace ''default'') (hd (demoBindings ''default''))) (Some OtherError),
         Errorf ''Could not add service accounts to the %v role in the %q namespace: %v\<newline>'',
         AddRoleCall (addRole (newNamespace ''default'') (hd (tl (demoBindings ''default'')))) None]
   \<and> (\<exists>r. AddRoleCall (addRole (newNamespace ''default'') (hd (tl (demoBindings ''default'')))) r
         \<in> set (trace (snd (addRoles (demo\<lparr>AddRole := (\<lambda>opts w.
                (if w = 0 then Some Conflict else if w = 1 then Some OtherError else None, Suc w))\<rparr>)
              (newNamespace ''default'') (demoBindings ''default'') False (init 0)))))"
proof -
  let ?c = "demo\<lparr>AddRole := (\<lambda>opts w.
          (if w = 0 then Some Conflict else if w = 1 then Some OtherError else None, Suc w))\<rparr>"
  let ?ns = "newNamespace ''default''"
  have p: "0 < DefaultRetry ?c" by (simp add: demo_def)
  have m: "hd (tl (demoBindings ''default'')) \<in> set (demoBindings ''default'')"
    by (simp add: demoBindings_def)
  have run: "trace (snd (addRoles ?c ?ns (demoBindings ''default'') False (init 0)))
      = [AddRoleCall (addRole ?ns (hd (demoBindings ''default''))) (Some Conflict),
         AddRoleCall (addRole ?ns (hd (demoBindings ''default''))) (Some OtherError),
         Errorf ''Could not add service accounts to the %v role in the %q namespace: %v\<newline>'',
         AddRoleCall (addRole ?ns (hd (tl (demoBindings ''default'')))) None]"
    by (simp add: demo_fields grant_def call_def init_def emit_def IsConflict_def eval_nat_numeral)
  note all = C8_retry_on_conflict_and_continue [where c = ?c and namespace = ?ns
      and bs = "demoBindings ''default''" and h = False and s = "init 0",
      THEN conjunct2, THEN conjunct2, THEN mp, OF p, THEN bspec, OF m]
  show ?thesis
    by (intro conjI) (rule p, rule run, rule all)
qed

subsection \<open>Waiting for the default namespace\<close>


lemma ensureNamespaceServiceAccountRoleBindings_trace:
  "\<exists>es. trace (snd (ensureNamespaceServiceAccountRoleBindings c ns s)) = trace s @ es
      \<and> (\<forall>e\<in>set es. is_AddRoleCall e \<or> is_Errorf e \<or> is_NamespaceUpdate e)"
proof (cases "annotation ns ServiceAccountRolesInitializedAnnotation = ''true''")
  case True
  then show ?thesis by (simp add: ensureNamespaceServiceAccountRoleBindings_def)
next
  case False
  let ?table = "GetBootstrapServiceAccountProjectRoleBindings c (Namespace_Name ns)"
  obtain hasErrors s1 where a: "addRoles c ns ?table False s = (hasErrors, s1)"
    by (cases "addRoles c ns ?table False s")
  from addRoles_trace [of c ns ?table False s] a obtain es1 where
    e1: "trace s1 = trace s @ es1" "\<forall>e\<in>set es1. is_AddRoleCall e \<or> is_Errorf e" by auto
  show ?thesis
  proof (cases hasErrors)
    case True
    then have "ensureNamespaceServiceAccountRoleBindings c ns s = (ns, s1)"
      using False a by (simp add: ensureNamespaceServiceAccountRoleBindings_def)
    with e1 show ?thesis by auto
  next
    case nh: False
    obtain r s2 where u: "call (Namespaces_Update c (setInitialized ns))
                       (NamespaceUpdate (setInitialized ns)) s1 = (r, s2)"
      by (cases "call (Namespaces_Update c (setInitialized ns)) (NamespaceUpdate (setInitialized ns)) s1")
    have t2: "trace s2 = trace s1 @ [NamespaceUpdate (setInitialized ns) r]"
      using call_trace [of "Namespaces_Update c (setInitialized ns)" "NamespaceUpdate (setInitialized ns)" s1]
            call_fst [of "Namespaces_Update c (setInitialized ns)" "NamespaceUpdate (setInitialized ns)" s1] u
      by simp
    have "trace (snd (ensureNamespaceServiceAccountRoleBindings c ns s)) = trace s2
        \<or> trace (snd (ensureNamespaceServiceAccountRoleBindings c ns s))
            = trace s2 @ [Errorf ''Error recording adding service account roles to %q namespace: %v'']"
      using False a nh u by (auto simp add: ensureNamespaceServiceAccountRoleBindings_def emit_trace)
    then show ?thesis
    proof
      assume "trace (snd (ensureNamespaceServiceAccountRoleBindings c ns s)) = trace s2"
      then have "trace (snd (ensureNamespaceServiceAccountRoleBindings c ns s))
          = trace s @ (es1 @ [NamespaceUpdate (setInitialized ns) r])"
        using t2 e1(1) by simp
      moreover have "\<forall>e\<in>set (es1 @ [NamespaceUpdate (setInitialized ns) r]).
          is_AddRoleCall e \<or> is_Errorf e \<or> is_NamespaceUpdate e"
        using e1(2) by auto
      ultimately show ?thesis by blast
    next
      assume "trace (snd (ensureNamespaceServiceAccountRoleBindings c ns s))
            = trace s2 @ [Errorf ''Error recording adding service account roles to %q namespace: %v'']"
      then have "trace (snd (ensureNamespaceServiceAccountRoleBindings c ns s))
          = trace s @ (es1 @ [NamespaceUpdate (setInitialized ns) r,
               Errorf ''Error recording adding service account roles to %q namespace: %v''])"
        using t2 e1(1) by simp
      moreover have "\<forall>e\<in>set (es1 @ [NamespaceUpdate (setInitialized ns) r,
               Errorf ''Error recording adding service account roles to %q namespace: %v'']).
          is_AddRoleCall e \<or> is_Errorf e \<or> is_NamespaceUpdate e"
        using e1(2) by auto
      ultimately show ?thesis by blast
    qed
  qed
qed






subsection \<open>Security context constraints\<close>

lemma createSCCs_shape:
  "\<exists>rs. length rs = length sccs
     \<and> trace (createSCCs c sccs s) = trace s @ concat (map2 (\<lambda>scc r. SCCCreate scc r #
          (if IsAlreadyExists r then []
           else if r \<noteq> None
             then [Errorf ''Unable to create default security context constraint %s.  Got error: %v'']
             else [Infof ''Created default security context constraint %s''])) sccs rs)"
proof (induction sccs arbitrary: s)
  case Nil
  show ?case by simp
next
  case (Cons scc sccs)
  let ?log = "\<lambda>r. if IsAlreadyExists r then []
           else if r \<noteq> None
             then [Errorf ''Unable to create default security context constraint %s.  Got error: %v'']
             else [Infof ''Created default security context constraint %s'']"
  obtain r s1 where g: "call (SCC_Create c scc) (SCCCreate scc) s = (r, s1)"
    by (cases "call (SCC_Create c scc) (SCCCreate scc) s")
  have t1: "trace s1 = trace s @ [SCCCreate scc r]"
    using call_trace [of "SCC_Create c scc" "SCCCreate scc" s]
          call_fst [of "SCC_Create c scc" "SCCCreate scc" s] g by simp
  obtain s2 where s2: "createSCCs c (scc # sccs) s = createSCCs c sccs s2"
    and t2: "trace s2 = trace s1 @ ?log r"
    using g by (cases "IsAlreadyExists r"; cases "r = None") (auto simp: emit_trace)
  from Cons.IH [of s2] obtain rs where
    rs: "length rs = length sccs"
        "trace (createSCCs c sccs s2) = trace s2 @ concat (map2 (\<lambda>scc r. SCCCreate scc r # ?log r) sccs rs)"
    by blast
  have "length (r # rs) = length (scc # sccs)" using rs(1) by simp
  moreover have "trace (createSCCs c (scc # sccs) s)
      = trace s @ concat (map2 (\<lambda>scc r. SCCCreate scc r # ?log r) (scc # sccs) (r # rs))"
    using s2 t2 t1 rs(2) by simp
  ultimately show ?case by blast
qed

lemma ensureDefaultSecurityContextConstraints_shape:
  "\<exists>rs. length rs = length (GetBootstrapSecurityContextConstraints c
              (fst (GetBoostrapSCCAccess c (OpenShiftInfrastructureNamespace c)))
              (snd (GetBoostrapSCCAccess c (OpenShiftInfrastructureNamespace c))))
     \<and> trace (ensureDefaultSecurityContextConstraints c (init w))
        = concat (map2 (\<lambda>scc r. SCCCreate scc r #
            (if IsAlreadyExists r then []
             else if r \<noteq> None
               then [Errorf ''Unable to create default security context constraint %s.  Got error: %v'']
               else [Infof ''Created default security context constraint %s'']))
            (GetBootstrapSecurityContextConstraints c
              (fst (GetBoostrapSCCAccess c (OpenShiftInfrastructureNamespace c)))
              (snd (GetBoostrapSCCAccess c (OpenShiftInfrastructureNamespace c))))
            rs)"
  using createSCCs_shape [of "GetBootstrapSecurityContextConstraints c
              (fst (GetBoostrapSCCAccess c (OpenShiftInfrastructureNamespace c)))
              (snd (GetBoostrapSCCAccess c (OpenShiftInfrastructureNamespace c)))" c "init w"]
  by (simp add: ensureDefaultSecurityContextConstraints_def init_def case_prod_beta Let_def)

lemma createSCCs_fold:
  "createSCCs c sccs s
     = foldl (\<lambda>s scc. case SCC_Create c scc (world s) of
                 (r, w') \<Rightarrow>
                   \<lparr>world = w',
                    trace = trace s @ SCCCreate scc r #
                      (if IsAlreadyExists r then []
                       else if r \<noteq> None
                         then [Errorf ''Unable to create default security context constraint %s.  Got error: %v'']
                         else [Infof ''Created default security context constraint %s''])\<rparr>)
         s sccs"
proof (induction sccs arbitrary: s)
  case Nil
  show ?case by simp
next
  case (Cons scc sccs)
  obtain r w' where o: "SCC_Create c scc (world s) = (r, w')" by (cases "SCC_Create c scc (world s)")
  have "createSCCs c (scc # sccs) s
      = createSCCs c sccs
          \<lparr>world = w',
           trace = trace s @ SCCCreate scc r #
             (if IsAlreadyExists r then []
              else if r \<noteq> None
                then [Errorf ''Unable to create default security context constraint %s.  Got error: %v'']
                else [Infof ''Created default security context constraint %s''])\<rparr>"
    using o by (simp add: call_def emit_def)
  then show ?case using o by (simp add: Cons.IH)
qed

text \<open>
  C7: \<open>ensureDefaultSecurityContextConstraints\<close> is the fold, over the table of default
  objects in its order, of one step: \<open>SCC_Create\<close> is applied to the object in the world
  that the objects before it left, whatever their outcomes, and its answer decides what
  is logged. After an answer of already-exists nothing is logged; after any other error
  one error line is logged; after a success one info line is logged. The trace is thus
  one create per object, each followed by its log.
\<close>

theorem C7_every_scc_is_attempted:
  "ensureDefaultSecurityContextConstraints c (init w)
     = foldl (\<lambda>s scc. case SCC_Create c scc (world s) of
                 (r, w') \<Rightarrow>
                   \<lparr>world = w',
                    trace = trace s @ SCCCreate scc r #
                      (if IsAlreadyExists r then []
                       else if r \<noteq> None
                         then [Errorf ''Unable to create default security context constraint %s.  Got error: %v'']
                         else [Infof ''Created default security context constraint %s''])\<rparr>)
         (init w)
         (GetBootstrapSecurityContextConstraints c
            (fst (GetBoostrapSCCAccess c (OpenShiftInfrastructureNamespace c)))
            (snd (GetBoostrapSCCAccess c (OpenShiftInfrastructureNamespace c))))
   \<and> (\<exists>rs. length rs = length (GetBootstrapSecurityContextConstraints c
              (fst (GetBoostrapSCCAccess c (OpenShiftInfrastructureNamespace c)))
              (snd (GetBoostrapSCCAccess c (OpenShiftInfrastructureNamespace c))))
     \<and> trace (ensureDefaultSecurityContextConstraints c (init w))
        = concat (map2 (\<lambda>scc r. SCCCreate scc r #
            (if IsAlreadyExists r then []
             else if r \<noteq> None
               then [Errorf ''Unable to create default security context constraint %s.  Got error: %v'']
               else [Infof ''Created default security context constraint %s'']))
            (GetBootstrapSecurityContextConstraints c
              (fst (GetBoostrapSCCAccess c (OpenShiftInfrastructureNamespace c)))
              (snd (GetBoostrapSCCAccess c (OpenShiftInfrastructureNamespace c))))
            rs))"
proof (rule conjI)
  have "ensureDefaultSecurityContextConstraints c (init w)
      = createSCCs c (GetBootstrapSecurityContextConstraints c
            (fst (GetBoostrapSCCAccess c (OpenShiftInfrastructureNamespace c)))
            (snd (GetBoostrapSCCAccess c (OpenShiftInfrastructureNamespace c)))) (init w)"
    by (simp add: ensureDefaultSecurityContextConstraints_def case_prod_beta Let_def)
  then show "ensureDefaultSecurityContextConstraints c (init w)
     = foldl (\<lambda>s scc. case SCC_Create c scc (world s) of
                 (r, w') \<Rightarrow>
                   \<lparr>world = w',
                    trace = trace s @ SCCCreate scc r #
                      (if IsAlreadyExists r then []
                       else if r \<noteq> None
                         then [Errorf ''Unable to create default security context constraint %s.  Got error: %v'']
                         else [Infof ''Created default security context constraint %s''])\<rparr>)
         (init w)
         (GetBootstrapSecurityContextConstraints c
            (fst (GetBoostrapSCCAccess c (OpenShiftInfrastructureNamespace c)))
            (snd (GetBoostrapSCCAccess c (OpenShiftInfrastructureNamespace c))))"
    by (simp only: createSCCs_fold)
qed (rule ensureDefaultSecurityContextConstraints_shape)

theorem C7_witness:
  "ensureDefaultSecurityContextConstraints
        (demo\<lparr>SCC_Create := (\<lambda>scc w.
           (if SCC_Name scc = ''privileged'' then Some AlreadyExists else Some OtherError, w + 10))\<rparr>) (init 0)
      = \<lparr>world = 20,
         trace = [SCCCreate \<lparr>SCC_Name = ''privileged''\<rparr> (Some AlreadyExists),
                  SCCCreate \<lparr>SCC_Name = ''restricted''\<rparr> (Some OtherError),
                  Errorf ''Unable to create default security context constraint %s.  Got error: %v'']\<rparr>"
proof -
  let ?c = "demo\<lparr>SCC_Create := (\<lambda>scc w.
           (if SCC_Name scc = ''privileged'' then Some AlreadyExists else Some OtherError, w + 10))\<rparr>"
  have tbl: "GetBootstrapSecurityContextConstraints ?c
              (fst (GetBoostrapSCCAccess ?c (OpenShiftInfrastructureNamespace ?c)))
              (snd (GetBoostrapSCCAccess ?c (OpenShiftInfrastructureNamespace ?c)))
      = [\<lparr>SCC_Name = ''privileged''\<rparr>, \<lparr>SCC_Name = ''restricted''\<rparr>]"
    by (simp add: demo_def)
  note a = C7_every_scc_is_attempted [of ?c 0, THEN conjunct1, unfolded tbl]
  show ?thesis
    unfolding a by (simp add: demo_def init_def IsAlreadyExists_def)
qed

subsection \<open>Ensuring the shared and the infrastructure namespace\<close>

text \<open>
  C9: in \<open>ensureOpenShiftSharedResourcesNamespace\<close>, when the fetch succeeds or fails with an
  error other than not-found, the function ends with the state the fetch left: its
  trace is the fetch alone, so nothing is created, initialized or logged. When the fetch
  reports not-found, the namespace is created; a failed creation is logged and ends the
  function, and only a successful creation is followed by the initialization of the role
  bindings, on the namespace that the creation returned.
\<close>

theorem C9_shared_namespace_initialized_only_when_created:
  assumes "Namespaces_Get c (OpenShiftSharedResourcesNamespace c) w = (r, w1)"
  shows
    "(err_of r \<noteq> Some NotFound \<longrightarrow>
        ensureOpenShiftSharedResourcesNamespace c (init w)
          = \<lparr>world = w1, trace = [NamespaceGet (OpenShiftSharedResourcesNamespace c) r]\<rparr>)
   \<and> (err_of r = Some NotFound \<longrightarrow>
        (case Namespaces_Create c (newNamespace (OpenShiftSharedResourcesNamespace c)) w1 of
           (Inl createErr, w2) \<Rightarrow>
             ensureOpenShiftSharedResourcesNamespace c (init w)
               = \<lparr>world = w2,
                  trace = [NamespaceGet (OpenShiftSharedResourcesNamespace c) r,
                           NamespaceCreate (newNamespace (OpenShiftSharedResourcesNamespace c)) (Inl createErr),
                           Errorf ''Error creating namespace: %v due to %v\<newline>'']\<rparr>
         | (Inr namespace, w2) \<Rightarrow>
             ensureOpenShiftSharedResourcesNamespace c (init w)
               = snd (ensureNamespaceServiceAccountRoleBindings c namespace
                   \<lparr>world = w2,
                    trace = [NamespaceGet (OpenShiftSharedResourcesNamespace c) r,
                             NamespaceCreate (newNamespace (OpenShiftSharedResourcesNamespace c))
                               (Inr namespace)]\<rparr>)))"
  using assms
  by (auto simp: ensureOpenShiftSharedResourcesNamespace_def call_def init_def emit_def IsNotFound_def
           split: prod.splits sum.splits)

theorem C9_witness:
  "Namespaces_Get demo ''openshift'' 0 = (Inr (newNamespace ''openshift''), 1)
   \<and> err_of (Inr (newNamespace ''openshift'') :: api_error + Namespace) \<noteq> Some NotFound
   \<and> ensureOpenShiftSharedResourcesNamespace demo (init 0)
       = \<lparr>world = 1, trace = [NamespaceGet ''openshift'' (Inr (newNamespace ''openshift''))]\<rparr>
   \<and> Namespaces_Get (demo\<lparr>Namespaces_Get := (\<lambda>name w. (Inl OtherError, Suc w))\<rparr>)
        ''openshift'' 0 = (Inl OtherError, 1)
   \<and> ensureOpenShiftSharedResourcesNamespace
        (demo\<lparr>Namespaces_Get := (\<lambda>name w. (Inl OtherError, Suc w))\<rparr>) (init 0)
       = \<lparr>world = 1, trace = [NamespaceGet ''openshift'' (Inl OtherError)]\<rparr>
   \<and> Namespaces_Get (demo\<lparr>Namespaces_Get := (\<lambda>name w. (Inl NotFound, Suc w)),
              Namespaces_Create := (\<lambda>ns w. (Inl OtherError, Suc w))\<rparr>)
        ''openshift'' 0 = (Inl NotFound, 1)
   \<and> ensureOpenShiftSharedResourcesNamespace
        (demo\<lparr>Namespaces_Get := (\<lambda>name w. (Inl NotFound, Suc w)),
              Namespaces_Create := (\<lambda>ns w. (Inl OtherError, Suc w))\<rparr>) (init 0)
       = \<lparr>world = 2,
          trace = [NamespaceGet ''openshift'' (Inl NotFound),
                   NamespaceCreate (newNamespace ''openshift'') (Inl OtherError),
                   Errorf ''Error creating namespace: %v due to %v\<newline>'']\<rparr>"
proof -
  let ?d = "demo\<lparr>Namespaces_Get := (\<lambda>name w. (Inl NotFound, Suc w)),
              Namespaces_Create := (\<lambda>ns w. (Inl OtherError, Suc w))\<rparr>"
  have n'': "OpenShiftSharedResourcesNamespace ?d = ''openshift''" by (simp add: demo_def)
  have g'': "Namespaces_Get ?d (OpenShiftSharedResourcesNamespace ?d) 0 = (Inl NotFound, 1)"
    by (simp add: demo_def)
  have e'': "err_of (Inl NotFound :: api_error + Namespace) = Some NotFound" by simp
  have cr: "Namespaces_Create ?d (newNamespace ''openshift'') 1 = (Inl OtherError, 2)"
    by (simp add: demo_def)
  note d = C9_shared_namespace_initialized_only_when_created [OF g'', THEN conjunct2, THEN mp, OF e'',
      unfolded n'' cr prod.case sum.case]
  let ?c = "demo\<lparr>Namespaces_Get := (\<lambda>name w. (Inl OtherError, Suc w))\<rparr>"
  have n: "OpenShiftSharedResourcesNamespace demo = ''openshift''"
    and n': "OpenShiftSharedResourcesNamespace ?c = ''openshift''" by (simp_all add: demo_def)
  have g: "Namespaces_Get demo (OpenShiftSharedResourcesNamespace demo) 0 = (Inr (newNamespace ''openshift''), 1)"
    by (simp add: demo_def)
  have e: "err_of (Inr (newNamespace ''openshift'') :: api_error + Namespace) \<noteq> Some NotFound" by simp
  have g': "Namespaces_Get ?c (OpenShiftSharedResourcesNamespace ?c) 0 = (Inl OtherError, 1)"
    by (simp add: demo_def)
  have e': "err_of (Inl OtherError :: api_error + Namespace) \<noteq> Some NotFound" by simp
  note a = C9_shared_namespace_initialized_only_when_created [OF g, THEN conjunct1, THEN mp, OF e, unfolded n]
  note b = C9_shared_namespace_initialized_only_when_created [OF g', THEN conjunct1, THEN mp, OF e', unfolded n']
  show ?thesis
    by (intro conjI) (rule g [unfolded n], rule e, rule a, rule g' [unfolded n'], rule b,
        rule g'' [unfolded n''], rule d)
qed

lemma shared_first_is_get:
  "\<exists>es. trace (ensureOpenShiftSharedResourcesNamespace c (init w))
      = NamespaceGet (OpenShiftSharedResourcesNamespace c)
          (fst (Namespaces_Get c (OpenShiftSharedResourcesNamespace c) w)) # es
    \<and> ((filter is_NamespaceCreate es \<noteq> [])
          = (fst (Namespaces_Get c (OpenShiftSharedResourcesNamespace c) w) = Inl NotFound))"
proof -
  let ?n = "OpenShiftSharedResourcesNamespace c"
  obtain r w1 where g: "Namespaces_Get c ?n w = (r, w1)" by (cases "Namespaces_Get c ?n w")
  show ?thesis
  proof (cases "r = Inl NotFound")
    case False
    then have "err_of r \<noteq> Some NotFound" by (cases r) auto
    then have "trace (ensureOpenShiftSharedResourcesNamespace c (init w)) = NamespaceGet ?n r # []"
      using g by (simp add: ensureOpenShiftSharedResourcesNamespace_def call_def init_def IsNotFound_def)
    then show ?thesis using g False by simp
  next
    case True
    obtain cr w2 where cr: "Namespaces_Create c (newNamespace ?n) w1 = (cr, w2)"
      by (cases "Namespaces_Create c (newNamespace ?n) w1")
    show ?thesis
    proof (cases cr)
      case (Inl createErr)
      then have "trace (ensureOpenShiftSharedResourcesNamespace c (init w))
          = NamespaceGet ?n r # [NamespaceCreate (newNamespace ?n) (Inl createErr),
               Errorf ''Error creating namespace: %v due to %v\<newline>'']"
        using g cr True
        by (simp add: ensureOpenShiftSharedResourcesNamespace_def call_def init_def IsNotFound_def emit_def)
      then show ?thesis using g True by simp
    next
      case (Inr namespace)
      let ?s2 = "\<lparr>world = w2, trace = [NamespaceGet ?n r, NamespaceCreate (newNamespace ?n) (Inr namespace)]\<rparr>"
      from ensureNamespaceServiceAccountRoleBindings_trace [of c namespace ?s2] obtain es where
        es: "trace (snd (ensureNamespaceServiceAccountRoleBindings c namespace ?s2)) = trace ?s2 @ es"
        by blast
      have "ensureOpenShiftSharedResourcesNamespace c (init w)
          = snd (ensureNamespaceServiceAccountRoleBindings c namespace ?s2)"
        using g cr True Inr
        by (simp add: ensureOpenShiftSharedResourcesNamespace_def call_def init_def IsNotFound_def)
      then have "trace (ensureOpenShiftSharedResourcesNamespace c (init w))
          = NamespaceGet ?n r # (NamespaceCreate (newNamespace ?n) (Inr namespace) # es)"
        using es by simp
      then show ?thesis using g True by simp
    qed
  qed
qed

text \<open>
  C4, as amended: \<open>ensureOpenShiftInfraNamespace\<close> first applies \<open>Namespaces_Create\<close>. If the
  store answers already-exists it fetches the namespace by name, in the world the
  creation left, and goes on with the fetched namespace: the reconciliation of the
  controller roles and role bindings and the initialization of the role bindings run on
  it. A failing fetch is logged and ends the function. Any other creation error is
  logged and ends the function with no namespace, in the world the creation left, so
  that neither the reconciliation nor the initialization runs. A successful creation
  goes on with the created namespace. \<open>ensureOpenShiftSharedResourcesNamespace\<close> first
  applies \<open>Namespaces_Get\<close>, and applies \<open>Namespaces_Create\<close> exactly when the fetch reports
  not-found, in the world the fetch left.
\<close>

theorem C4_infra_creates_first_shared_fetches_first:
  "(case Namespaces_Create c (newNamespace (OpenShiftInfrastructureNamespace c)) w of
      (r, w1) \<Rightarrow>
        if IsAlreadyExists (err_of r) then
          (case Namespaces_Get c (OpenShiftInfrastructureNamespace c) w1 of
             (Inr namespace, w2) \<Rightarrow>
               infraNamespace c (init w)
                 = (Some namespace,
                    \<lparr>world = w2,
                     trace = [NamespaceCreate (newNamespace (OpenShiftInfrastructureNamespace c)) r,
                              NamespaceGet (OpenShiftInfrastructureNamespace c) (Inr namespace)]\<rparr>)
               \<and> ensureOpenShiftInfraNamespace c (init w)
                 = snd (ensureNamespaceServiceAccountRoleBindings c namespace
                     (reconcileControllerRoleBindings c (ControllerRoleBindings c)
                        (reconcileControllerRoles c (ControllerRoles c)
                           \<lparr>world = w2,
                            trace = [NamespaceCreate (newNamespace (OpenShiftInfrastructureNamespace c)) r,
                                     NamespaceGet (OpenShiftInfrastructureNamespace c) (Inr namespace)]\<rparr>)))
           | (Inl err, w2) \<Rightarrow>
               infraNamespace c (init w)
                 = (None,
                    \<lparr>world = w2,
                     trace = [NamespaceCreate (newNamespace (OpenShiftInfrastructureNamespace c)) r,
                              NamespaceGet (OpenShiftInfrastructureNamespace c) (Inl err),
                              Errorf ''Error getting namespace %s: %v'']\<rparr>)
               \<and> ensureOpenShiftInfraNamespace c (init w)
                 = \<lparr>world = w2,
                    trace = [NamespaceCreate (newNamespace (OpenShiftInfrastructureNamespace c)) r,
                             NamespaceGet (OpenShiftInfrastructureNamespace c) (Inl err),
                             Errorf ''Error getting namespace %s: %v'']\<rparr>)
        else
          (case r of
             Inl err \<Rightarrow>
               infraNamespace c (init w)
                 = (None,
                    \<lparr>world = w1,
                     trace = [NamespaceCreate (newNamespace (OpenShiftInfrastructureNamespace c)) r,
                              Errorf ''Error creating namespace %s: %v'']\<rparr>)
               \<and> ensureOpenShiftInfraNamespace c (init w)
                 = \<lparr>world = w1,
                    trace = [NamespaceCreate (newNamespace (OpenShiftInfrastructureNamespace c)) r,
                             Errorf ''Error creating namespace %s: %v'']\<rparr>
           | Inr namespace \<Rightarrow>
               infraNamespace c (init w)
                 = (Some namespace,
                    \<lparr>world = w1,
                     trace = [NamespaceCreate (newNamespace (OpenShiftInfrastructureNamespace c)) r]\<rparr>)
               \<and> ensureOpenShiftInfraNamespace c (init w)
                 = snd (ensureNamespaceServiceAccountRoleBindings c namespace
                     (reconcileControllerRoleBindings c (ControllerRoleBindings c)
                        (reconcileControllerRoles c (ControllerRoles c)
                           \<lparr>world = w1,
                            trace = [NamespaceCreate (newNamespace (OpenShiftInfrastructureNamespace c))
                                       r]\<rparr>)))))
   \<and> (case Namespaces_Get c (OpenShiftSharedResourcesNamespace c) w' of
        (g, v1) \<Rightarrow>
          if err_of g = Some NotFound then
            (case Namespaces_Create c (newNamespace (OpenShiftSharedResourcesNamespace c)) v1 of
               (Inl createErr, v2) \<Rightarrow>
                 ensureOpenShiftSharedResourcesNamespace c (init w')
                   = \<lparr>world = v2,
                      trace = [NamespaceGet (OpenShiftSharedResourcesNamespace c) g,
                               NamespaceCreate (newNamespace (OpenShiftSharedResourcesNamespace c))
                                 (Inl createErr),
                               Errorf ''Error creating namespace: %v due to %v\<newline>'']\<rparr>
             | (Inr namespace, v2) \<Rightarrow>
                 ensureOpenShiftSharedResourcesNamespace c (init w')
                   = snd (ensureNamespaceServiceAccountRoleBindings c namespace
                       \<lparr>world = v2,
                        trace = [NamespaceGet (OpenShiftSharedResourcesNamespace c) g,
                                 NamespaceCreate (newNamespace (OpenShiftSharedResourcesNamespace c))
                                   (Inr namespace)]\<rparr>))
          else
            ensureOpenShiftSharedResourcesNamespace c (init w')
              = \<lparr>world = v1, trace = [NamespaceGet (OpenShiftSharedResourcesNamespace c) g]\<rparr>)
   \<and> (\<exists>es. trace (ensureOpenShiftSharedResourcesNamespace c (init w'))
          = NamespaceGet (OpenShiftSharedResourcesNamespace c)
              (fst (Namespaces_Get c (OpenShiftSharedResourcesNamespace c) w')) # es
        \<and> ((filter is_NamespaceCreate es \<noteq> [])
              = (fst (Namespaces_Get c (OpenShiftSharedResourcesNamespace c) w') = Inl NotFound)))"
proof (intro conjI)
  show "\<exists>es. trace (ensureOpenShiftSharedResourcesNamespace c (init w'))
          = NamespaceGet (OpenShiftSharedResourcesNamespace c)
              (fst (Namespaces_Get c (OpenShiftSharedResourcesNamespace c) w')) # es
        \<and> ((filter is_NamespaceCreate es \<noteq> [])
              = (fst (Namespaces_Get c (OpenShiftSharedResourcesNamespace c) w') = Inl NotFound))"
    by (rule shared_first_is_get)
qed (auto simp: infraNamespace_def ensureOpenShiftInfraNamespace_def
                ensureOpenShiftSharedResourcesNamespace_def call_def init_def emit_def
                IsNotFound_def IsAlreadyExists_def Let_def
          split: prod.splits sum.splits)

theorem C4_counterexample:
  "\<not> is_NamespaceCreate (hd (trace (ensureOpenShiftSharedResourcesNamespace
        (demo\<lparr>Namespaces_Get := (\<lambda>name w. (Inl NotFound, Suc w)),
              Namespaces_Create := (\<lambda>ns w. (Inl AlreadyExists, Suc w))\<rparr>) (init 0))))
   \<and> trace (ensureOpenShiftSharedResourcesNamespace
        (demo\<lparr>Namespaces_Get := (\<lambda>name w. (Inl NotFound, Suc w)),
              Namespaces_Create := (\<lambda>ns w. (Inl AlreadyExists, Suc w))\<rparr>) (init 0))
      = [NamespaceGet ''openshift'' (Inl NotFound),
         NamespaceCreate (newNamespace ''openshift'') (Inl AlreadyExists),
         Errorf ''Error creating namespace: %v due to %v\<newline>'']"
  by (simp add: ensureOpenShiftSharedResourcesNamespace_def demo_def call_def init_def emit_def
                IsNotFound_def)

theorem C4_witness:
  "infraNamespace (demo\<lparr>Namespaces_Create := (\<lambda>ns w. (Inl AlreadyExists, Suc w))\<rparr>) (init 0)
      = (Some (newNamespace ''openshift-infra''),
         \<lparr>world = 2,
          trace = [NamespaceCreate (newNamespace ''openshift-infra'') (Inl AlreadyExists),
                   NamespaceGet ''openshift-infra'' (Inr (newNamespace ''openshift-infra''))]\<rparr>)
   \<and> ensureOpenShiftInfraNamespace (demo\<lparr>Namespaces_Create := (\<lambda>ns w. (Inl AlreadyExists, Suc w))\<rparr>) (init 0)
      = \<lparr>world = 7,
         trace = [NamespaceCreate (newNamespace ''openshift-infra'') (Inl AlreadyExists),
                  NamespaceGet ''openshift-infra'' (Inr (newNamespace ''openshift-infra'')),
                  ReconcileClusterRoles (reconcileOptions ''system:build-controller'') None,
                  ReconcileClusterRoleBindings (reconcileOptions ''system:build-controller'') None,
                  AddRoleCall (addRole (newNamespace ''openshift-infra'') (hd (demoBindings ''openshift-infra''))) None,
                  AddRoleCall (addRole (newNamespace ''openshift-infra'') (hd (tl (demoBindings ''openshift-infra'')))) None,
                  NamespaceUpdate (setInitialized (newNamespace ''openshift-infra''))
                    (Inr (setInitialized (newNamespace ''openshift-infra'')))]\<rparr>"
proof -
  let ?c = "demo\<lparr>Namespaces_Create := (\<lambda>ns w. (Inl AlreadyExists, Suc w))\<rparr>"
  have n: "OpenShiftInfrastructureNamespace ?c = ''openshift-infra''" by (simp add: demo_def)
  have cr: "Namespaces_Create ?c (newNamespace ''openshift-infra'') 0 = (Inl AlreadyExists, 1)"
    by (simp add: demo_def)
  have ae: "IsAlreadyExists (err_of (Inl AlreadyExists :: api_error + Namespace))"
    by (simp add: IsAlreadyExists_def)
  have g: "Namespaces_Get ?c ''openshift-infra'' 1 = (Inr (newNamespace ''openshift-infra''), 2)"
    by (simp add: demo_def)
  note a = C4_infra_creates_first_shared_fetches_first [of ?c 0, THEN conjunct1,
      unfolded n cr prod.case if_P [OF ae] g sum.case]
  have run: "snd (ensureNamespaceServiceAccountRoleBindings ?c (newNamespace ''openshift-infra'')
        (reconcileControllerRoleBindings ?c (ControllerRoleBindings ?c)
           (reconcileControllerRoles ?c (ControllerRoles ?c)
              \<lparr>world = 2,
               trace = [NamespaceCreate (newNamespace ''openshift-infra'') (Inl AlreadyExists),
                        NamespaceGet ''openshift-infra'' (Inr (newNamespace ''openshift-infra''))]\<rparr>)))
      = \<lparr>world = 7,
         trace = [NamespaceCreate (newNamespace ''openshift-infra'') (Inl AlreadyExists),
                  NamespaceGet ''openshift-infra'' (Inr (newNamespace ''openshift-infra'')),
                  ReconcileClusterRoles (reconcileOptions ''system:build-controller'') None,
                  ReconcileClusterRoleBindings (reconcileOptions ''system:build-controller'') None,
                  AddRoleCall (addRole (newNamespace ''openshift-infra'') (hd (demoBindings ''openshift-infra''))) None,
                  AddRoleCall (addRole (newNamespace ''openshift-infra'') (hd (tl (demoBindings ''openshift-infra'')))) None,
                  NamespaceUpdate (setInitialized (newNamespace ''openshift-infra''))
                    (Inr (setInitialized (newNamespace ''openshift-infra'')))]\<rparr>"
    by (simp add: ensureNamespaceServiceAccountRoleBindings_def demo_fields grant_def call_def emit_def
                  annotation_def IsConflict_def eval_nat_numeral)
  show ?thesis
    by (intro conjI) (rule a [THEN conjunct1], simp only: a [THEN conjunct2] run)
qed

subsection \<open>The cluster policy\<close>

lemma createRoles_trace:
  "\<exists>es. trace (createRoles c ns rs s) = trace s @ es \<and> (\<forall>e\<in>set es. is_legacy e)"
proof (induction rs arbitrary: s)
  case Nil
  show ?case by simp
next
  case (Cons r rs)
  have "\<exists>s1 es1. createRoles c ns (r # rs) s = createRoles c ns rs s1
          \<and> trace s1 = trace s @ es1 \<and> (\<forall>e\<in>set es1. is_legacy e)"
  proof (cases "Convert_rbac_Role_To_authorization_Role c r")
    case (Inl err)
    then have "createRoles c ns (r # rs) s
        = createRoles c ns rs (emit (HandleError ''unable to convert role.%s/%s in %v: %v'') s)"
      by simp
    moreover have "trace (emit (HandleError ''unable to convert role.%s/%s in %v: %v'') s)
        = trace s @ [HandleError ''unable to convert role.%s/%s in %v: %v'']"
      by (simp add: emit_trace)
    ultimately show ?thesis by fastforce
  next
    case (Inr role)
    obtain x s1 where g: "call (Roles_Create c ns role) (RoleCreate ns role) s = (x, s1)"
      by (cases "call (Roles_Create c ns role) (RoleCreate ns role) s")
    have t1: "trace s1 = trace s @ [RoleCreate ns role x]"
      using call_trace [of "Roles_Create c ns role" "RoleCreate ns role" s]
            call_fst [of "Roles_Create c ns role" "RoleCreate ns role" s] g by simp
    show ?thesis
    proof (cases x)
      case None
      then have "createRoles c ns (r # rs) s = createRoles c ns rs s1" using Inr g by simp
      with t1 show ?thesis by fastforce
    next
      case (Some err)
      then have "createRoles c ns (r # rs) s
          = createRoles c ns rs (emit (HandleError ''unable to reconcile role.%s/%s in %v: %v'') s1)"
        using Inr g by simp
      moreover have "trace (emit (HandleError ''unable to reconcile role.%s/%s in %v: %v'') s1)
          = trace s @ [RoleCreate ns role x, HandleError ''unable to reconcile role.%s/%s in %v: %v'']"
        using t1 by (simp add: emit_trace)
      ultimately show ?thesis by fastforce
    qed
  qed
  then obtain s1 es1 where s1: "createRoles c ns (r # rs) s = createRoles c ns rs s1"
    "trace s1 = trace s @ es1" "\<forall>e\<in>set es1. is_legacy e" by blast
  from Cons.IH [of s1] obtain es2 where
    es2: "trace (createRoles c ns rs s1) = trace s1 @ es2" "\<forall>e\<in>set es2. is_legacy e" by blast
  have "trace (createRoles c ns (r # rs) s) = trace s @ (es1 @ es2)"
    using s1(1,2) es2(1) by simp
  moreover have "\<forall>e\<in>set (es1 @ es2). is_legacy e" using s1(3) es2(2) by auto
  ultimately show ?case by blast
qed

lemma createNamespaceRoles_trace:
  "\<exists>es. trace (createNamespaceRoles c tbl s) = trace s @ es \<and> (\<forall>e\<in>set es. is_legacy e)"
proof (induction tbl arbitrary: s)
  case Nil
  show ?case by simp
next
  case (Cons p tbl)
  obtain ns rs where p: "p = (ns, rs)" by (cases p)
  from createRoles_trace [of c ns rs s] obtain es1 where
    es1: "trace (createRoles c ns rs s) = trace s @ es1" "\<forall>e\<in>set es1. is_legacy e" by blast
  from Cons.IH [of "createRoles c ns rs s"] obtain es2 where
    es2: "trace (createNamespaceRoles c tbl (createRoles c ns rs s)) = trace (createRoles c ns rs s) @ es2"
         "\<forall>e\<in>set es2. is_legacy e" by blast
  have "trace (createNamespaceRoles c (p # tbl) s) = trace s @ (es1 @ es2)"
    using p es1(1) es2(1) by simp
  moreover have "\<forall>e\<in>set (es1 @ es2). is_legacy e" using es1(2) es2(2) by auto
  ultimately show ?case by blast
qed

lemma createRoleBindings_trace:
  "\<exists>es. trace (createRoleBindings c ns rs s) = trace s @ es \<and> (\<forall>e\<in>set es. is_legacy e)"
proof (induction rs arbitrary: s)
  case Nil
  show ?case by simp
next
  case (Cons r rs)
  have "\<exists>s1 es1. createRoleBindings c ns (r # rs) s = createRoleBindings c ns rs s1
          \<and> trace s1 = trace s @ es1 \<and> (\<forall>e\<in>set es1. is_legacy e)"
  proof (cases "Convert_rbac_RoleBinding_To_authorization_RoleBinding c r")
    case (Inl err)
    then have "createRoleBindings c ns (r # rs) s
        = createRoleBindings c ns rs (emit (HandleError ''unable to convert rolebinding.%s/%s in %v: %v'') s)"
      by simp
    moreover have "trace (emit (HandleError ''unable to convert rolebinding.%s/%s in %v: %v'') s)
        = trace s @ [HandleError ''unable to convert rolebinding.%s/%s in %v: %v'']"
      by (simp add: emit_trace)
    ultimately show ?thesis by fastforce
  next
    case (Inr roleBinding)
    obtain x s1 where g: "call (RoleBindings_Create c ns roleBinding) (RoleBindingCreate ns roleBinding) s = (x, s1)"
      by (cases "call (RoleBindings_Create c ns roleBinding) (RoleBindingCreate ns roleBinding) s")
    have t1: "trace s1 = trace s @ [RoleBindingCreate ns roleBinding x]"
      using call_trace [of "RoleBindings_Create c ns roleBinding" "RoleBindingCreate ns roleBinding" s]
            call_fst [of "RoleBindings_Create c ns roleBinding" "RoleBindingCreate ns roleBinding" s] g
      by simp
    show ?thesis
    proof (cases x)
      case None
      then have "createRoleBindings c ns (r # rs) s = createRoleBindings c ns rs s1" using Inr g by simp
      with t1 show ?thesis by fastforce
    next
      case (Some err)
      then have "createRoleBindings c ns (r # rs) s
          = createRoleBindings c ns rs
              (emit (HandleError ''unable to reconcile rolebinding.%s/%s in %v: %v'') s1)"
        using Inr g by simp
      moreover have "trace (emit (HandleError ''unable to reconcile rolebinding.%s/%s in %v: %v'') s1)
          = trace s @ [RoleBindingCreate ns roleBinding x,
                       HandleError ''unable to reconcile rolebinding.%s/%s in %v: %v'']"
        using t1 by (simp add: emit_trace)
      ultimately show ?thesis by fastforce
    qed
  qed
  then obtain s1 es1 where s1: "createRoleBindings c ns (r # rs) s = createRoleBindings c ns rs s1"
    "trace s1 = trace s @ es1" "\<forall>e\<in>set es1. is_legacy e" by blast
  from Cons.IH [of s1] obtain es2 where
    es2: "trace (createRoleBindings c ns rs s1) = trace s1 @ es2" "\<forall>e\<in>set es2. is_legacy e" by blast
  have "trace (createRoleBindings c ns (r # rs) s) = trace s @ (es1 @ es2)"
    using s1(1,2) es2(1) by simp
  moreover have "\<forall>e\<in>set (es1 @ es2). is_legacy e" using s1(3) es2(2) by auto
  ultimately show ?case by blast
qed

lemma createNamespaceRoleBindings_trace:
  "\<exists>es. trace (createNamespaceRoleBindings c tbl s) = trace s @ es \<and> (\<forall>e\<in>set es. is_legacy e)"
proof (induction tbl arbitrary: s)
  case Nil
  show ?case by simp
next
  case (Cons p tbl)
  obtain ns rs where p: "p = (ns, rs)" by (cases p)
  from createRoleBindings_trace [of c ns rs s] obtain es1 where
    es1: "trace (createRoleBindings c ns rs s) = trace s @ es1" "\<forall>e\<in>set es1. is_legacy e" by blast
  from Cons.IH [of "createRoleBindings c ns rs s"] obtain es2 where
    es2: "trace (createNamespaceRoleBindings c tbl (createRoleBindings c ns rs s))
            = trace (createRoleBindings c ns rs s) @ es2"
         "\<forall>e\<in>set es2. is_legacy e" by blast
  have "trace (createNamespaceRoleBindings c (p # tbl) s) = trace s @ (es1 @ es2)"
    using p es1(1) es2(1) by simp
  moreover have "\<forall>e\<in>set (es1 @ es2). is_legacy e" using es1(2) es2(2) by auto
  ultimately show ?case by blast
qed

lemma bootstrapPolicy_skip:
  "\<not> IsNotFound err \<Longrightarrow>
     bootstrapPolicy c err s
       = emit (V2_Infof ''Ignoring bootstrap policy file because cluster policy found'') s"
  by (simp add: bootstrapPolicy_def)

lemma bootstrapPolicy_seed:
  assumes "IsNotFound err"
  shows "\<exists>r es. trace (bootstrapPolicy c err s)
      = trace s @ Infof ''No cluster policy found.  Creating bootstrap policy based on: %v''
          # OverwriteBootstrapPolicyCall (BootstrapPolicyFile c) r # es
      \<and> (\<forall>e\<in>set es. is_Errorf e \<or> is_legacy e)"
proof -
  let ?s1 = "emit (Infof ''No cluster policy found.  Creating bootstrap policy based on: %v'') s"
  obtain r s' where g: "call (OverwriteBootstrapPolicy c (BootstrapPolicyFile c))
                          (OverwriteBootstrapPolicyCall (BootstrapPolicyFile c)) ?s1 = (r, s')"
    by (cases "call (OverwriteBootstrapPolicy c (BootstrapPolicyFile c))
                          (OverwriteBootstrapPolicyCall (BootstrapPolicyFile c)) ?s1")
  have t': "trace s' = trace s @ [Infof ''No cluster policy found.  Creating bootstrap policy based on: %v'',
                OverwriteBootstrapPolicyCall (BootstrapPolicyFile c) r]"
    using call_trace [of "OverwriteBootstrapPolicy c (BootstrapPolicyFile c)"
                "OverwriteBootstrapPolicyCall (BootstrapPolicyFile c)" ?s1]
          call_fst [of "OverwriteBootstrapPolicy c (BootstrapPolicyFile c)"
                "OverwriteBootstrapPolicyCall (BootstrapPolicyFile c)" ?s1] g
    by (simp add: emit_trace)
  define s2 where "s2 = (case r of Some err \<Rightarrow> emit (Errorf ''Error creating bootstrap policy: %v'') s'
                            | None \<Rightarrow> s')"
  have "\<exists>es0. trace s2 = trace s' @ es0 \<and> (\<forall>e\<in>set es0. is_Errorf e \<or> is_legacy e)"
    by (cases r) (simp_all add: s2_def emit_trace)
  then obtain es0 where es0: "trace s2 = trace s' @ es0" "\<forall>e\<in>set es0. is_Errorf e \<or> is_legacy e"
    by blast
  let ?s3 = "createNamespaceRoles c (NamespaceRoles c) s2"
  from createNamespaceRoles_trace [of c "NamespaceRoles c" s2] obtain es1 where
    es1: "trace ?s3 = trace s2 @ es1" "\<forall>e\<in>set es1. is_legacy e" by blast
  from createNamespaceRoleBindings_trace [of c "NamespaceRoleBindings c" ?s3] obtain es2 where
    es2: "trace (createNamespaceRoleBindings c (NamespaceRoleBindings c) ?s3) = trace ?s3 @ es2"
         "\<forall>e\<in>set es2. is_legacy e" by blast
  have "bootstrapPolicy c err s = createNamespaceRoleBindings c (NamespaceRoleBindings c) ?s3"
    using assms g by (cases r) (simp_all add: bootstrapPolicy_def s2_def Let_def)
  then have "trace (bootstrapPolicy c err s)
      = trace s @ Infof ''No cluster policy found.  Creating bootstrap policy based on: %v''
          # OverwriteBootstrapPolicyCall (BootstrapPolicyFile c) r # (es0 @ es1 @ es2)"
    using es2(1) es1(1) es0(1) t' by simp
  moreover have "\<forall>e\<in>set (es0 @ es1 @ es2). is_Errorf e \<or> is_legacy e"
    using es0(2) es1(2) es2(2) by auto
  ultimately show ?thesis by blast
qed

lemma reconcileDiscovery_shape:
  "\<exists>r1 l1 r2 l2. trace (reconcileDiscovery c s)
      = trace s @ ReconcileClusterRoles (reconcileOptions (DiscoveryRoleName c)) r1 # l1
          @ ReconcileClusterRoleBindings (reconcileOptions (DiscoveryRoleName c)) r2 # l2
     \<and> (l1 = [] \<or> l1 = [Errorf ''Could not auto reconcile roles: %v\<newline>''])
     \<and> (l2 = [] \<or> l2 = [Errorf ''Could not auto reconcile role bindings: %v\<newline>''])"
proof -
  let ?o = "reconcileOptions (DiscoveryRoleName c)"
  obtain r1 s1 where g1: "call (RunReconcileClusterRoles c ?o) (ReconcileClusterRoles ?o) s = (r1, s1)"
    by (cases "call (RunReconcileClusterRoles c ?o) (ReconcileClusterRoles ?o) s")
  have t1: "trace s1 = trace s @ [ReconcileClusterRoles ?o r1]"
    using call_trace [of "RunReconcileClusterRoles c ?o" "ReconcileClusterRoles ?o" s]
          call_fst [of "RunReconcileClusterRoles c ?o" "ReconcileClusterRoles ?o" s] g1 by simp
  define l1 where "l1 = (case r1 of Some err \<Rightarrow> [Errorf ''Could not auto reconcile roles: %v\<newline>'']
                           | None \<Rightarrow> [])"
  define s1' where "s1' = (case r1 of Some err \<Rightarrow> emit (Errorf ''Could not auto reconcile roles: %v\<newline>'') s1
                           | None \<Rightarrow> s1)"
  have t1': "trace s1' = trace s1 @ l1" by (cases r1) (simp_all add: s1'_def l1_def emit_trace)
  obtain r2 s2 where g2: "call (RunReconcileClusterRoleBindings c ?o) (ReconcileClusterRoleBindings ?o) s1' = (r2, s2)"
    by (cases "call (RunReconcileClusterRoleBindings c ?o) (ReconcileClusterRoleBindings ?o) s1'")
  have t2: "trace s2 = trace s1' @ [ReconcileClusterRoleBindings ?o r2]"
    using call_trace [of "RunReconcileClusterRoleBindings c ?o" "ReconcileClusterRoleBindings ?o" s1']
          call_fst [of "RunReconcileClusterRoleBindings c ?o" "ReconcileClusterRoleBindings ?o" s1'] g2 by simp
  define l2 where "l2 = (case r2 of Some err \<Rightarrow> [Errorf ''Could not auto reconcile role bindings: %v\<newline>'']
                           | None \<Rightarrow> [])"
  have "trace (reconcileDiscovery c s) = trace s2 @ l2"
    using g1 g2 by (cases r1; cases r2) (simp_all add: reconcileDiscovery_def s1'_def l2_def emit_trace)
  then have "trace (reconcileDiscovery c s)
      = trace s @ ReconcileClusterRoles ?o r1 # l1 @ ReconcileClusterRoleBindings ?o r2 # l2"
    using t2 t1' t1 by simp
  moreover have "l1 = [] \<or> l1 = [Errorf ''Could not auto reconcile roles: %v\<newline>'']"
    by (cases r1) (simp_all add: l1_def)
  moreover have "l2 = [] \<or> l2 = [Errorf ''Could not auto reconcile role bindings: %v\<newline>'']"
    by (cases r2) (simp_all add: l2_def)
  ultimately show ?thesis by blast
qed

lemma ensureComponentAuthorizationRules_no_storage:
  assumes "fst (NewREST c w) \<noteq> None"
  shows "trace (ensureComponentAuthorizationRules c (init w))
      = [NewRESTCall (fst (NewREST c w)), Errorf ''Error creating policy storage: %v'']"
  using assms
  by (cases "NewREST c w")
     (auto simp: ensureComponentAuthorizationRules_def call_def init_def emit_def split: option.splits)

lemma ensureComponentAuthorizationRules_storage:
  assumes "NewREST c w = (None, w0)" and "GetClusterPolicy c (PolicyName c) w0 = (err, w1)"
  shows "ensureComponentAuthorizationRules c (init w)
      = reconcileDiscovery c (bootstrapPolicy c err
          \<lparr>world = w1, trace = [NewRESTCall None, GetClusterPolicyCall (PolicyName c) err]\<rparr>)"
  using assms by (simp add: ensureComponentAuthorizationRules_def call_def init_def)

lemma ensureComponentAuthorizationRules_skip:
  assumes "NewREST c w = (None, w0)" and "GetClusterPolicy c (PolicyName c) w0 = (err, w1)"
    and "err \<noteq> Some NotFound"
  shows "ensureComponentAuthorizationRules c (init w)
      = reconcileDiscovery c
          \<lparr>world = w1,
           trace = [NewRESTCall None, GetClusterPolicyCall (PolicyName c) err,
                    V2_Infof ''Ignoring bootstrap policy file because cluster policy found'']\<rparr>"
  using assms
  by (simp add: ensureComponentAuthorizationRules_storage bootstrapPolicy_skip IsNotFound_def emit_def)

lemma ensureComponentAuthorizationRules_skip_trace:
  assumes "NewREST c w = (None, w0)" and "GetClusterPolicy c (PolicyName c) w0 = (err, w1)"
    and "err \<noteq> Some NotFound"
  shows "\<exists>r1 l1 r2 l2. trace (ensureComponentAuthorizationRules c (init w))
      = [NewRESTCall None, GetClusterPolicyCall (PolicyName c) err,
         V2_Infof ''Ignoring bootstrap policy file because cluster policy found'']
        @ ReconcileClusterRoles (reconcileOptions (DiscoveryRoleName c)) r1 # l1
        @ ReconcileClusterRoleBindings (reconcileOptions (DiscoveryRoleName c)) r2 # l2
     \<and> (l1 = [] \<or> l1 = [Errorf ''Could not auto reconcile roles: %v\<newline>''])
     \<and> (l2 = [] \<or> l2 = [Errorf ''Could not auto reconcile role bindings: %v\<newline>''])"
  using reconcileDiscovery_shape [of c "\<lparr>world = w1,
           trace = [NewRESTCall None, GetClusterPolicyCall (PolicyName c) err,
                    V2_Infof ''Ignoring bootstrap policy file because cluster policy found'']\<rparr>"]
  unfolding ensureComponentAuthorizationRules_skip [OF assms]
  by simp

lemma ensureComponentAuthorizationRules_seed_trace:
  assumes "NewREST c w = (None, w0)" and "GetClusterPolicy c (PolicyName c) w0 = (Some NotFound, w1)"
  shows "\<exists>r es r1 l1 r2 l2. trace (ensureComponentAuthorizationRules c (init w))
      = [NewRESTCall None, GetClusterPolicyCall (PolicyName c) (Some NotFound),
         Infof ''No cluster policy found.  Creating bootstrap policy based on: %v'',
         OverwriteBootstrapPolicyCall (BootstrapPolicyFile c) r] @ es
        @ ReconcileClusterRoles (reconcileOptions (DiscoveryRoleName c)) r1 # l1
        @ ReconcileClusterRoleBindings (reconcileOptions (DiscoveryRoleName c)) r2 # l2
     \<and> (\<forall>e\<in>set es. is_Errorf e \<or> is_legacy e)
     \<and> (l1 = [] \<or> l1 = [Errorf ''Could not auto reconcile roles: %v\<newline>''])
     \<and> (l2 = [] \<or> l2 = [Errorf ''Could not auto reconcile role bindings: %v\<newline>''])"
proof -
  let ?s1 = "\<lparr>world = w1, trace = [NewRESTCall None, GetClusterPolicyCall (PolicyName c) (Some NotFound)]\<rparr>"
  have nf: "IsNotFound (Some NotFound)" by (simp add: IsNotFound_def)
  from bootstrapPolicy_seed [OF nf, of c ?s1] obtain r es where
    b: "trace (bootstrapPolicy c (Some NotFound) ?s1)
      = trace ?s1 @ Infof ''No cluster policy found.  Creating bootstrap policy based on: %v''
          # OverwriteBootstrapPolicyCall (BootstrapPolicyFile c) r # es"
    and es: "\<forall>e\<in>set es. is_Errorf e \<or> is_legacy e" by blast
  from reconcileDiscovery_shape [of c "bootstrapPolicy c (Some NotFound) ?s1"] obtain r1 l1 r2 l2 where
    d: "trace (reconcileDiscovery c (bootstrapPolicy c (Some NotFound) ?s1))
      = trace (bootstrapPolicy c (Some NotFound) ?s1)
          @ ReconcileClusterRoles (reconcileOptions (DiscoveryRoleName c)) r1 # l1
          @ ReconcileClusterRoleBindings (reconcileOptions (DiscoveryRoleName c)) r2 # l2"
    and l: "l1 = [] \<or> l1 = [Errorf ''Could not auto reconcile roles: %v\<newline>'']"
           "l2 = [] \<or> l2 = [Errorf ''Could not auto reconcile role bindings: %v\<newline>'']"
    by blast
  have "trace (ensureComponentAuthorizationRules c (init w))
      = [NewRESTCall None, GetClusterPolicyCall (PolicyName c) (Some NotFound),
         Infof ''No cluster policy found.  Creating bootstrap policy based on: %v'',
         OverwriteBootstrapPolicyCall (BootstrapPolicyFile c) r] @ es
        @ ReconcileClusterRoles (reconcileOptions (DiscoveryRoleName c)) r1 # l1
        @ ReconcileClusterRoleBindings (reconcileOptions (DiscoveryRoleName c)) r2 # l2"
    unfolding ensureComponentAuthorizationRules_storage [OF assms] d b by simp
  with es l show ?thesis by blast
qed

lemma no_overwrite_in_rest:
  assumes "\<forall>e\<in>set es. is_Errorf e \<or> is_legacy e"
  shows "filter is_OverwriteBootstrapPolicyCall es = []"
proof (rule filter_False, rule ballI)
  fix e assume "e \<in> set es"
  with assms have "is_Errorf e \<or> is_legacy e" by blast
  then show "\<not> is_OverwriteBootstrapPolicyCall e" by (cases e) simp_all
qed

lemma no_reconcile_in_rest:
  assumes "\<forall>e\<in>set es. is_Errorf e \<or> is_legacy e"
  shows "filter is_Reconcile es = []"
proof (rule filter_False, rule ballI)
  fix e assume "e \<in> set es"
  with assms have "is_Errorf e \<or> is_legacy e" by blast
  then show "\<not> is_Reconcile e" by (cases e) simp_all
qed

lemma no_check_in_rest:
  assumes "\<forall>e\<in>set es. is_Errorf e \<or> is_legacy e"
  shows "GetClusterPolicyCall n x \<notin> set es"
proof
  assume "GetClusterPolicyCall n x \<in> set es"
  with assms have "is_Errorf (GetClusterPolicyCall n x) \<or> is_legacy (GetClusterPolicyCall n x)" by blast
  then show False by simp
qed

lemma reconcileDiscovery_state:
  "reconcileDiscovery c s =
     (case RunReconcileClusterRoles c (reconcileOptions (DiscoveryRoleName c)) (world s) of
        (r1, w1) \<Rightarrow>
          (case RunReconcileClusterRoleBindings c (reconcileOptions (DiscoveryRoleName c)) w1 of
             (r2, w2) \<Rightarrow>
               \<lparr>world = w2,
                trace = trace s
                  @ ReconcileClusterRoles (reconcileOptions (DiscoveryRoleName c)) r1
                    # (if r1 = None then [] else [Errorf ''Could not auto reconcile roles: %v\<newline>''])
                  @ ReconcileClusterRoleBindings (reconcileOptions (DiscoveryRoleName c)) r2
                    # (if r2 = None then []
                       else [Errorf ''Could not auto reconcile role bindings: %v\<newline>''])\<rparr>))"
  by (simp add: reconcileDiscovery_def call_def emit_def Let_def split: prod.splits option.splits)

lemma bootstrapPolicy_no_reconcile:
  "filter is_Reconcile (trace (bootstrapPolicy c err s)) = filter is_Reconcile (trace s)"
proof (cases "IsNotFound err")
  case False
  then show ?thesis by (simp add: bootstrapPolicy_skip emit_trace)
next
  case True
  from bootstrapPolicy_seed [OF True, of c s] obtain r es where
    t: "trace (bootstrapPolicy c err s)
      = trace s @ Infof ''No cluster policy found.  Creating bootstrap policy based on: %v''
          # OverwriteBootstrapPolicyCall (BootstrapPolicyFile c) r # es"
    and es: "\<forall>e\<in>set es. is_Errorf e \<or> is_legacy e" by blast
  show ?thesis unfolding t using no_reconcile_in_rest [OF es] by simp
qed

lemma bootstrapPolicy_seed_state:
  "bootstrapPolicy c (Some NotFound) s =
     (case OverwriteBootstrapPolicy c (BootstrapPolicyFile c) (world s) of
        (r, w') \<Rightarrow>
          createNamespaceRoleBindings c (NamespaceRoleBindings c)
            (createNamespaceRoles c (NamespaceRoles c)
               \<lparr>world = w',
                trace = trace s
                  @ [Infof ''No cluster policy found.  Creating bootstrap policy based on: %v'',
                     OverwriteBootstrapPolicyCall (BootstrapPolicyFile c) r]
                  @ (if r = None then [] else [Errorf ''Error creating bootstrap policy: %v''])\<rparr>))"
  by (simp add: bootstrapPolicy_def IsNotFound_def call_def emit_def Let_def
           split: prod.splits option.splits)

lemma ensureComponentAuthorizationRules_seeding_trace:
  "((GetClusterPolicyCall (PolicyName c) (Some NotFound)
        \<in> set (trace (ensureComponentAuthorizationRules c (init w))))
      = (fst (NewREST c w) = None
          \<and> fst (GetClusterPolicy c (PolicyName c) (snd (NewREST c w))) = Some NotFound))
   \<and> (if GetClusterPolicyCall (PolicyName c) (Some NotFound)
            \<in> set (trace (ensureComponentAuthorizationRules c (init w)))
       then (\<exists>r. filter is_OverwriteBootstrapPolicyCall (trace (ensureComponentAuthorizationRules c (init w)))
                = [OverwriteBootstrapPolicyCall (BootstrapPolicyFile c) r])
       else filter is_OverwriteBootstrapPolicyCall (trace (ensureComponentAuthorizationRules c (init w))) = []
          \<and> filter is_legacy (trace (ensureComponentAuthorizationRules c (init w))) = [])"
proof -
  let ?tr = "trace (ensureComponentAuthorizationRules c (init w))"
  let ?chk = "GetClusterPolicyCall (PolicyName c) (Some NotFound)"
  obtain x w0 where n: "NewREST c w = (x, w0)" by (cases "NewREST c w")
  obtain err w1 where g: "GetClusterPolicy c (PolicyName c) w0 = (err, w1)"
    by (cases "GetClusterPolicy c (PolicyName c) w0")
  consider (fail) "x \<noteq> None" | (seed) "x = None" "err = Some NotFound" | (skip) "x = None" "err \<noteq> Some NotFound"
    by blast
  then have "(?chk \<in> set ?tr) = (x = None \<and> err = Some NotFound)
      \<and> (x = None \<and> err = Some NotFound \<longrightarrow>
            (\<exists>r. filter is_OverwriteBootstrapPolicyCall ?tr = [OverwriteBootstrapPolicyCall (BootstrapPolicyFile c) r]))
      \<and> (\<not> (x = None \<and> err = Some NotFound) \<longrightarrow>
            filter is_OverwriteBootstrapPolicyCall ?tr = [] \<and> filter is_legacy ?tr = [])"
  proof cases
    case fail
    then have "?tr = [NewRESTCall x, Errorf ''Error creating policy storage: %v'']"
      using ensureComponentAuthorizationRules_no_storage [of c w] n by simp
    with fail show ?thesis by simp
  next
    case seed
    have n': "NewREST c w = (None, w0)" using n seed by simp
    have g': "GetClusterPolicy c (PolicyName c) w0 = (Some NotFound, w1)" using g seed by simp
    from ensureComponentAuthorizationRules_seed_trace [OF n' g']
    obtain r es r1 l1 r2 l2 where
      t: "?tr = [NewRESTCall None, GetClusterPolicyCall (PolicyName c) (Some NotFound),
         Infof ''No cluster policy found.  Creating bootstrap policy based on: %v'',
         OverwriteBootstrapPolicyCall (BootstrapPolicyFile c) r] @ es
        @ ReconcileClusterRoles (reconcileOptions (DiscoveryRoleName c)) r1 # l1
        @ ReconcileClusterRoleBindings (reconcileOptions (DiscoveryRoleName c)) r2 # l2"
      and es: "\<forall>e\<in>set es. is_Errorf e \<or> is_legacy e"
      and l: "l1 = [] \<or> l1 = [Errorf ''Could not auto reconcile roles: %v\<newline>'']"
             "l2 = [] \<or> l2 = [Errorf ''Could not auto reconcile role bindings: %v\<newline>'']"
      by blast
    have "filter is_OverwriteBootstrapPolicyCall ?tr = [OverwriteBootstrapPolicyCall (BootstrapPolicyFile c) r]"
      unfolding t using no_overwrite_in_rest [OF es] l by auto
    moreover have "?chk \<in> set ?tr" unfolding t by simp
    ultimately show ?thesis using seed by blast
  next
    case skip
    have n': "NewREST c w = (None, w0)" using n skip by simp
    from ensureComponentAuthorizationRules_skip_trace [OF n' g skip(2)]
    obtain r1 l1 r2 l2 where
      t: "?tr = [NewRESTCall None, GetClusterPolicyCall (PolicyName c) err,
         V2_Infof ''Ignoring bootstrap policy file because cluster policy found'']
        @ ReconcileClusterRoles (reconcileOptions (DiscoveryRoleName c)) r1 # l1
        @ ReconcileClusterRoleBindings (reconcileOptions (DiscoveryRoleName c)) r2 # l2"
      and l: "l1 = [] \<or> l1 = [Errorf ''Could not auto reconcile roles: %v\<newline>'']"
             "l2 = [] \<or> l2 = [Errorf ''Could not auto reconcile role bindings: %v\<newline>'']"
      by blast
    have "filter is_OverwriteBootstrapPolicyCall ?tr = []" "filter is_legacy ?tr = []"
      "?chk \<notin> set ?tr"
      unfolding t using l skip(2) by auto
    with skip show ?thesis by blast
  qed
  then show ?thesis using n g by simp
qed

text \<open>
  C1: \<open>ensureComponentAuthorizationRules\<close> loads the bootstrap policy exactly when the policy
  storage was created and the existence check on the well-known name, made in the world
  that \<open>NewREST\<close> left, reported not-found. In that case \<open>OverwriteBootstrapPolicy\<close> is
  applied once, to the bootstrap policy file and in the world that the check left; its
  answer is the one recorded and decides the error line, and the conversion of the
  namespaced roles and role bindings and the reconciliation go on from the world it
  returned. For every other answer of the check the final world is the one that the two
  reconciliations make of the world the check left, and the trace is the check, the
  verbose line and the two reconciliations: nothing is loaded or converted, so a present
  document is not overwritten. When the storage cannot be created there is no check and
  no load.
\<close>

theorem C1_seeds_iff_check_reports_not_found:
  "(case NewREST c w of
      (Some e, w0) \<Rightarrow>
        ensureComponentAuthorizationRules c (init w)
          = \<lparr>world = w0, trace = [NewRESTCall (Some e), Errorf ''Error creating policy storage: %v'']\<rparr>
    | (None, w0) \<Rightarrow>
        (case GetClusterPolicy c (PolicyName c) w0 of
           (err, w1) \<Rightarrow>
             if err = Some NotFound then
               (case OverwriteBootstrapPolicy c (BootstrapPolicyFile c) w1 of
                  (r, w2) \<Rightarrow>
                    ensureComponentAuthorizationRules c (init w)
                      = reconcileDiscovery c
                          (createNamespaceRoleBindings c (NamespaceRoleBindings c)
                             (createNamespaceRoles c (NamespaceRoles c)
                                \<lparr>world = w2,
                                 trace = [NewRESTCall None,
                                          GetClusterPolicyCall (PolicyName c) (Some NotFound),
                                          Infof ''No cluster policy found.  Creating bootstrap policy based on: %v'',
                                          OverwriteBootstrapPolicyCall (BootstrapPolicyFile c) r]
                                   @ (if r = None then []
                                      else [Errorf ''Error creating bootstrap policy: %v''])\<rparr>)))
             else
               (case RunReconcileClusterRoles c (reconcileOptions (DiscoveryRoleName c)) w1 of
                  (r1, w2) \<Rightarrow>
                    (case RunReconcileClusterRoleBindings c (reconcileOptions (DiscoveryRoleName c)) w2 of
                       (r2, w3) \<Rightarrow>
                         ensureComponentAuthorizationRules c (init w)
                           = \<lparr>world = w3,
                              trace = [NewRESTCall None, GetClusterPolicyCall (PolicyName c) err,
                                       V2_Infof ''Ignoring bootstrap policy file because cluster policy found'']
                                @ ReconcileClusterRoles (reconcileOptions (DiscoveryRoleName c)) r1
                                  # (if r1 = None then []
                                     else [Errorf ''Could not auto reconcile roles: %v\<newline>''])
                                @ ReconcileClusterRoleBindings (reconcileOptions (DiscoveryRoleName c)) r2
                                  # (if r2 = None then []
                                     else [Errorf ''Could not auto reconcile role bindings: %v\<newline>''])\<rparr>))))
   \<and> ((GetClusterPolicyCall (PolicyName c) (Some NotFound)
        \<in> set (trace (ensureComponentAuthorizationRules c (init w))))
      = (fst (NewREST c w) = None
          \<and> fst (GetClusterPolicy c (PolicyName c) (snd (NewREST c w))) = Some NotFound))
   \<and> (if GetClusterPolicyCall (PolicyName c) (Some NotFound)
            \<in> set (trace (ensureComponentAuthorizationRules c (init w)))
       then (\<exists>r. filter is_OverwriteBootstrapPolicyCall (trace (ensureComponentAuthorizationRules c (init w)))
                = [OverwriteBootstrapPolicyCall (BootstrapPolicyFile c) r])
       else filter is_OverwriteBootstrapPolicyCall (trace (ensureComponentAuthorizationRules c (init w))) = []
          \<and> filter is_legacy (trace (ensureComponentAuthorizationRules c (init w))) = [])"
proof (rule conjI)
  obtain x w0 where n: "NewREST c w = (x, w0)" by (cases "NewREST c w")
  show "(case NewREST c w of
      (Some e, w0) \<Rightarrow>
        ensureComponentAuthorizationRules c (init w)
          = \<lparr>world = w0, trace = [NewRESTCall (Some e), Errorf ''Error creating policy storage: %v'']\<rparr>
    | (None, w0) \<Rightarrow>
        (case GetClusterPolicy c (PolicyName c) w0 of
           (err, w1) \<Rightarrow>
             if err = Some NotFound then
               (case OverwriteBootstrapPolicy c (BootstrapPolicyFile c) w1 of
                  (r, w2) \<Rightarrow>
                    ensureComponentAuthorizationRules c (init w)
                      = reconcileDiscovery c
                          (createNamespaceRoleBindings c (NamespaceRoleBindings c)
                             (createNamespaceRoles c (NamespaceRoles c)
                                \<lparr>world = w2,
                                 trace = [NewRESTCall None,
                                          GetClusterPolicyCall (PolicyName c) (Some NotFound),
                                          Infof ''No cluster policy found.  Creating bootstrap policy based on: %v'',
                                          OverwriteBootstrapPolicyCall (BootstrapPolicyFile c) r]
                                   @ (if r = None then []
                                      else [Errorf ''Error creating bootstrap policy: %v''])\<rparr>)))
             else
               (case RunReconcileClusterRoles c (reconcileOptions (DiscoveryRoleName c)) w1 of
                  (r1, w2) \<Rightarrow>
                    (case RunReconcileClusterRoleBindings c (reconcileOptions (DiscoveryRoleName c)) w2 of
                       (r2, w3) \<Rightarrow>
                         ensureComponentAuthorizationRules c (init w)
                           = \<lparr>world = w3,
                              trace = [NewRESTCall None, GetClusterPolicyCall (PolicyName c) err,
                                       V2_Infof ''Ignoring bootstrap policy file because cluster policy found'']
                                @ ReconcileClusterRoles (reconcileOptions (DiscoveryRoleName c)) r1
                                  # (if r1 = None then []
                                     else [Errorf ''Could not auto reconcile roles: %v\<newline>''])
                                @ ReconcileClusterRoleBindings (reconcileOptions (DiscoveryRoleName c)) r2
                                  # (if r2 = None then []
                                     else [Errorf ''Could not auto reconcile role bindings: %v\<newline>''])\<rparr>))))"
  proof (cases x)
    case (Some e)
    then have "ensureComponentAuthorizationRules c (init w)
          = \<lparr>world = w0, trace = [NewRESTCall (Some e), Errorf ''Error creating policy storage: %v'']\<rparr>"
      using n by (simp add: ensureComponentAuthorizationRules_def call_def init_def emit_def)
    with n Some show ?thesis by simp
  next
    case None
    obtain err w1 where g: "GetClusterPolicy c (PolicyName c) w0 = (err, w1)"
      by (cases "GetClusterPolicy c (PolicyName c) w0")
    have n': "NewREST c w = (None, w0)" using n None by simp
    show ?thesis
    proof (cases "err = Some NotFound")
      case True
      obtain r w2 where o: "OverwriteBootstrapPolicy c (BootstrapPolicyFile c) w1 = (r, w2)"
        by (cases "OverwriteBootstrapPolicy c (BootstrapPolicyFile c) w1")
      have "ensureComponentAuthorizationRules c (init w)
          = reconcileDiscovery c
              (createNamespaceRoleBindings c (NamespaceRoleBindings c)
                 (createNamespaceRoles c (NamespaceRoles c)
                    \<lparr>world = w2,
                     trace = [NewRESTCall None,
                              GetClusterPolicyCall (PolicyName c) (Some NotFound),
                              Infof ''No cluster policy found.  Creating bootstrap policy based on: %v'',
                              OverwriteBootstrapPolicyCall (BootstrapPolicyFile c) r]
                       @ (if r = None then []
                          else [Errorf ''Error creating bootstrap policy: %v''])\<rparr>))"
        unfolding ensureComponentAuthorizationRules_storage [OF n' g] True
        by (simp add: bootstrapPolicy_seed_state o)
      then show ?thesis
        using n' g True o by simp
    next
      case False
      obtain r1 w2 where a: "RunReconcileClusterRoles c (reconcileOptions (DiscoveryRoleName c)) w1 = (r1, w2)"
        by (cases "RunReconcileClusterRoles c (reconcileOptions (DiscoveryRoleName c)) w1")
      obtain r2 w3 where b: "RunReconcileClusterRoleBindings c (reconcileOptions (DiscoveryRoleName c)) w2 = (r2, w3)"
        by (cases "RunReconcileClusterRoleBindings c (reconcileOptions (DiscoveryRoleName c)) w2")
      have "ensureComponentAuthorizationRules c (init w)
          = \<lparr>world = w3,
             trace = [NewRESTCall None, GetClusterPolicyCall (PolicyName c) err,
                      V2_Infof ''Ignoring bootstrap policy file because cluster policy found'']
               @ ReconcileClusterRoles (reconcileOptions (DiscoveryRoleName c)) r1
                 # (if r1 = None then []
                    else [Errorf ''Could not auto reconcile roles: %v\<newline>''])
               @ ReconcileClusterRoleBindings (reconcileOptions (DiscoveryRoleName c)) r2
                 # (if r2 = None then []
                    else [Errorf ''Could not auto reconcile role bindings: %v\<newline>''])\<rparr>"
        unfolding ensureComponentAuthorizationRules_skip [OF n' g False]
        by (simp add: reconcileDiscovery_state a b)
      then show ?thesis
        using n' g False a b by simp
    qed
  qed
qed (rule ensureComponentAuthorizationRules_seeding_trace)

theorem C1_witness:
  "ensureComponentAuthorizationRules
      (demo\<lparr>GetClusterPolicy := (\<lambda>name w. (Some NotFound, Suc w)),
            OverwriteBootstrapPolicy := (\<lambda>file w. (None, w + 100))\<rparr>) (init 0)
     = \<lparr>world = 106,
        trace = [NewRESTCall None, GetClusterPolicyCall ''default'' (Some NotFound),
                 Infof ''No cluster policy found.  Creating bootstrap policy based on: %v'',
                 OverwriteBootstrapPolicyCall ''policy.json'' None,
                 RoleCreate ''kube-public'' \<lparr>Role_Name = ''system:controller:bootstrap-signer''\<rparr> None,
                 RoleBindingCreate ''kube-public''
                   \<lparr>RoleBinding_Name = ''system:controller:bootstrap-signer'',
                    RoleRef = \<lparr>Ref_Name = ''system:controller:bootstrap-signer'', Ref_Namespace = []\<rparr>,
                    Subjects = []\<rparr> None,
                 ReconcileClusterRoles (reconcileOptions ''system:discovery'') None,
                 ReconcileClusterRoleBindings (reconcileOptions ''system:discovery'') None]\<rparr>"
proof -
  let ?c = "demo\<lparr>GetClusterPolicy := (\<lambda>name w. (Some NotFound, Suc w)),
            OverwriteBootstrapPolicy := (\<lambda>file w. (None, w + 100))\<rparr>"
  have n: "NewREST ?c 0 = (None, 1)" by (simp add: demo_def)
  have p: "PolicyName ?c = ''default''" and f: "BootstrapPolicyFile ?c = ''policy.json''"
    by (simp_all add: demo_def)
  have g: "GetClusterPolicy ?c ''default'' 1 = (Some NotFound, 2)" by (simp add: demo_def)
  have o: "OverwriteBootstrapPolicy ?c ''policy.json'' 2 = (None, 102)" by (simp add: demo_def)
  note t = C1_seeds_iff_check_reports_not_found [of ?c 0, THEN conjunct1,
      unfolded n prod.case option.case p g f if_P [OF refl] o]
  show ?thesis
    unfolding t
    by (simp add: reconcileDiscovery_def demo_def call_def emit_def)
qed

text \<open>
  C6, as amended: on every invocation of \<open>ensureComponentAuthorizationRules\<close> in which the
  policy storage is created, whichever branch the existence check selects, the last
  step applies \<open>RunReconcileClusterRoles\<close> and then \<open>RunReconcileClusterRoleBindings\<close>, each
  with the discovery role as the one name and the options confirmed and union, in the
  world that the branch left. The final world is the one the second reconciliation
  returns, and the trace is that of the branch, which holds no reconciliation, followed
  by the two calls with their answers, each with its error line when it failed. When the
  policy storage cannot be created, the error is logged and the function returns in the
  world that \<open>NewREST\<close> left.
\<close>

theorem C6_discovery_reconciled_when_storage_created:
  "(case NewREST c w of
      (Some e, w0) \<Rightarrow>
        ensureComponentAuthorizationRules c (init w)
          = \<lparr>world = w0, trace = [NewRESTCall (Some e), Errorf ''Error creating policy storage: %v'']\<rparr>
    | (None, w0) \<Rightarrow>
        (case GetClusterPolicy c (PolicyName c) w0 of
           (err, w1) \<Rightarrow>
             (case RunReconcileClusterRoles c (reconcileOptions (DiscoveryRoleName c))
                     (world (bootstrapPolicy c err
                        \<lparr>world = w1,
                         trace = [NewRESTCall None, GetClusterPolicyCall (PolicyName c) err]\<rparr>)) of
                (r1, w2) \<Rightarrow>
                  (case RunReconcileClusterRoleBindings c (reconcileOptions (DiscoveryRoleName c)) w2 of
                     (r2, w3) \<Rightarrow>
                       ensureComponentAuthorizationRules c (init w)
                         = \<lparr>world = w3,
                            trace = trace (bootstrapPolicy c err
                                \<lparr>world = w1,
                                 trace = [NewRESTCall None, GetClusterPolicyCall (PolicyName c) err]\<rparr>)
                              @ ReconcileClusterRoles (reconcileOptions (DiscoveryRoleName c)) r1
                                # (if r1 = None then []
                                   else [Errorf ''Could not auto reconcile roles: %v\<newline>''])
                              @ ReconcileClusterRoleBindings (reconcileOptions (DiscoveryRoleName c)) r2
                                # (if r2 = None then []
                                   else [Errorf ''Could not auto reconcile role bindings: %v\<newline>''])\<rparr>
                       \<and> filter is_Reconcile (trace (bootstrapPolicy c err
                                \<lparr>world = w1,
                                 trace = [NewRESTCall None, GetClusterPolicyCall (PolicyName c) err]\<rparr>))
                           = []))))
   \<and> RolesToReconcile (reconcileOptions (DiscoveryRoleName c)) = [DiscoveryRoleName c]
   \<and> Confirmed (reconcileOptions (DiscoveryRoleName c))
   \<and> Union_flag (reconcileOptions (DiscoveryRoleName c))"
proof -
  have opts: "RolesToReconcile (reconcileOptions (DiscoveryRoleName c)) = [DiscoveryRoleName c]
      \<and> Confirmed (reconcileOptions (DiscoveryRoleName c))
      \<and> Union_flag (reconcileOptions (DiscoveryRoleName c))"
    by (simp add: reconcileOptions_def)
  obtain x w0 where n: "NewREST c w = (x, w0)" by (cases "NewREST c w")
  show ?thesis
  proof (cases x)
    case (Some e)
    then have "ensureComponentAuthorizationRules c (init w)
          = \<lparr>world = w0, trace = [NewRESTCall (Some e), Errorf ''Error creating policy storage: %v'']\<rparr>"
      using n by (simp add: ensureComponentAuthorizationRules_def call_def init_def emit_def)
    with opts n Some show ?thesis by simp
  next
    case None
    obtain err w1 where g: "GetClusterPolicy c (PolicyName c) w0 = (err, w1)"
      by (cases "GetClusterPolicy c (PolicyName c) w0")
    let ?s = "bootstrapPolicy c err
                \<lparr>world = w1, trace = [NewRESTCall None, GetClusterPolicyCall (PolicyName c) err]\<rparr>"
    have e: "ensureComponentAuthorizationRules c (init w) = reconcileDiscovery c ?s"
      using n None g by (simp add: ensureComponentAuthorizationRules_storage)
    have f: "filter is_Reconcile (trace ?s) = []"
      by (simp add: bootstrapPolicy_no_reconcile)
    obtain r1 w2 where a: "RunReconcileClusterRoles c (reconcileOptions (DiscoveryRoleName c)) (world ?s) = (r1, w2)"
      by (cases "RunReconcileClusterRoles c (reconcileOptions (DiscoveryRoleName c)) (world ?s)")
    obtain r2 w3 where b: "RunReconcileClusterRoleBindings c (reconcileOptions (DiscoveryRoleName c)) w2 = (r2, w3)"
      by (cases "RunReconcileClusterRoleBindings c (reconcileOptions (DiscoveryRoleName c)) w2")
    have "ensureComponentAuthorizationRules c (init w)
        = \<lparr>world = w3,
           trace = trace ?s
             @ ReconcileClusterRoles (reconcileOptions (DiscoveryRoleName c)) r1
               # (if r1 = None then [] else [Errorf ''Could not auto reconcile roles: %v\<newline>''])
             @ ReconcileClusterRoleBindings (reconcileOptions (DiscoveryRoleName c)) r2
               # (if r2 = None then []
                  else [Errorf ''Could not auto reconcile role bindings: %v\<newline>''])\<rparr>"
      unfolding e by (simp only: reconcileDiscovery_state [of c ?s] a b prod.case)
    with f opts show ?thesis
      by (simp only: n None g a b prod.case option.case simp_thms)
  qed
qed

theorem C6_witness:
  "ensureComponentAuthorizationRules
      (demo\<lparr>RunReconcileClusterRoleBindings := (\<lambda>opts w. (Some OtherError, w + 10))\<rparr>) (init 0)
     = \<lparr>world = 13,
        trace = [NewRESTCall None, GetClusterPolicyCall ''default'' None,
                 V2_Infof ''Ignoring bootstrap policy file because cluster policy found'',
                 ReconcileClusterRoles (reconcileOptions ''system:discovery'') None,
                 ReconcileClusterRoleBindings (reconcileOptions ''system:discovery'') (Some OtherError),
                 Errorf ''Could not auto reconcile role bindings: %v\<newline>'']\<rparr>"
proof -
  let ?c = "demo\<lparr>RunReconcileClusterRoleBindings := (\<lambda>opts w. (Some OtherError, w + 10))\<rparr>"
  have n: "NewREST ?c 0 = (None, 1)" by (simp add: demo_def)
  have p: "PolicyName ?c = ''default''" and d: "DiscoveryRoleName ?c = ''system:discovery''"
    by (simp_all add: demo_def)
  have g: "GetClusterPolicy ?c ''default'' 1 = (None, 2)" by (simp add: demo_def)
  have s: "bootstrapPolicy ?c None \<lparr>world = 2, trace = [NewRESTCall None, GetClusterPolicyCall ''default'' None]\<rparr>
      = \<lparr>world = 2, trace = [NewRESTCall None, GetClusterPolicyCall ''default'' None,
            V2_Infof ''Ignoring bootstrap policy file because cluster policy found'']\<rparr>"
    by (simp add: bootstrapPolicy_def IsNotFound_def emit_def)
  have a: "RunReconcileClusterRoles ?c (reconcileOptions ''system:discovery'') 2 = (None, 3)"
    by (simp add: demo_def)
  have b: "RunReconcileClusterRoleBindings ?c (reconcileOptions ''system:discovery'') 3 = (Some OtherError, 13)"
    by (simp add: demo_def)
  note t = C6_discovery_reconciled_when_storage_created [of ?c 0, THEN conjunct1,
      unfolded n prod.case option.case p g d s state.simps a b, THEN conjunct1]
  show ?thesis using t by simp
qed

theorem C6_counterexample:
  "filter is_Reconcile (trace (ensureComponentAuthorizationRules
        (demo\<lparr>NewREST := (\<lambda>w. (Some OtherError, Suc w))\<rparr>) (init 0))) = []
   \<and> trace (ensureComponentAuthorizationRules
        (demo\<lparr>NewREST := (\<lambda>w. (Some OtherError, Suc w))\<rparr>) (init 0))
      = [NewRESTCall (Some OtherError), Errorf ''Error creating policy storage: %v'']"
  by (simp add: ensureComponentAuthorizationRules_def demo_def call_def init_def emit_def)

text \<open>
  C10: when the policy storage is created and the existence check returns anything but
  not-found, be it no error or an error of another kind, the function does one and the
  same thing: it logs the verbose line, loads nothing, converts nothing and goes on to
  the reconciliation of the discovery role and binding. The branch taken for such an
  error is the branch taken for a present document, and the only error lines that the
  trace can hold are those of the two reconciliations.
\<close>

theorem C10_other_check_errors_are_treated_as_present:
  assumes "NewREST c w = (None, w0)"
    and "GetClusterPolicy c (PolicyName c) w0 = (err, w1)"
    and "err \<noteq> Some NotFound"
  shows "ensureComponentAuthorizationRules c (init w)
      = reconcileDiscovery c
          \<lparr>world = w1,
           trace = [NewRESTCall None, GetClusterPolicyCall (PolicyName c) err,
                    V2_Infof ''Ignoring bootstrap policy file because cluster policy found'']\<rparr>
   \<and> bootstrapPolicy c err s = bootstrapPolicy c None s
   \<and> (\<exists>r1 l1 r2 l2. trace (ensureComponentAuthorizationRules c (init w))
      = [NewRESTCall None, GetClusterPolicyCall (PolicyName c) err,
         V2_Infof ''Ignoring bootstrap policy file because cluster policy found'']
        @ ReconcileClusterRoles (reconcileOptions (DiscoveryRoleName c)) r1 # l1
        @ ReconcileClusterRoleBindings (reconcileOptions (DiscoveryRoleName c)) r2 # l2
     \<and> (l1 = [] \<or> l1 = [Errorf ''Could not auto reconcile roles: %v\<newline>''])
     \<and> (l2 = [] \<or> l2 = [Errorf ''Could not auto reconcile role bindings: %v\<newline>'']))"
proof (intro conjI)
  show "ensureComponentAuthorizationRules c (init w)
      = reconcileDiscovery c
          \<lparr>world = w1,
           trace = [NewRESTCall None, GetClusterPolicyCall (PolicyName c) err,
                    V2_Infof ''Ignoring bootstrap policy file because cluster policy found'']\<rparr>"
    by (rule ensureComponentAuthorizationRules_skip [OF assms])
  have "\<not> IsNotFound err" "\<not> IsNotFound None" using assms(3) by (simp_all add: IsNotFound_def)
  then show "bootstrapPolicy c err s = bootstrapPolicy c None s"
    by (simp add: bootstrapPolicy_skip)
  show "\<exists>r1 l1 r2 l2. trace (ensureComponentAuthorizationRules c (init w))
      = [NewRESTCall None, GetClusterPolicyCall (PolicyName c) err,
         V2_Infof ''Ignoring bootstrap policy file because cluster policy found'']
        @ ReconcileClusterRoles (reconcileOptions (DiscoveryRoleName c)) r1 # l1
        @ ReconcileClusterRoleBindings (reconcileOptions (DiscoveryRoleName c)) r2 # l2
     \<and> (l1 = [] \<or> l1 = [Errorf ''Could not auto reconcile roles: %v\<newline>''])
     \<and> (l2 = [] \<or> l2 = [Errorf ''Could not auto reconcile role bindings: %v\<newline>''])"
    by (rule ensureComponentAuthorizationRules_skip_trace [OF assms])
qed

theorem C10_witness:
  "NewREST (demo\<lparr>GetClusterPolicy := (\<lambda>name w. (Some OtherError, Suc w))\<rparr>) 0 = (None, 1)
   \<and> GetClusterPolicy (demo\<lparr>GetClusterPolicy := (\<lambda>name w. (Some OtherError, Suc w))\<rparr>) ''default'' 1
       = (Some OtherError, 2)
   \<and> Some OtherError \<noteq> Some NotFound
   \<and> ensureComponentAuthorizationRules
        (demo\<lparr>GetClusterPolicy := (\<lambda>name w. (Some OtherError, Suc w))\<rparr>) (init 0)
      = reconcileDiscovery (demo\<lparr>GetClusterPolicy := (\<lambda>name w. (Some OtherError, Suc w))\<rparr>)
          \<lparr>world = 2,
           trace = [NewRESTCall None, GetClusterPolicyCall ''default'' (Some OtherError),
                    V2_Infof ''Ignoring bootstrap policy file because cluster policy found'']\<rparr>
   \<and> trace (ensureComponentAuthorizationRules
        (demo\<lparr>GetClusterPolicy := (\<lambda>name w. (Some OtherError, Suc w))\<rparr>) (init 0))
      = [NewRESTCall None, GetClusterPolicyCall ''default'' (Some OtherError),
         V2_Infof ''Ignoring bootstrap policy file because cluster policy found'',
         ReconcileClusterRoles (reconcileOptions ''system:discovery'') None,
         ReconcileClusterRoleBindings (reconcileOptions ''system:discovery'') None]"
proof -
  let ?c = "demo\<lparr>GetClusterPolicy := (\<lambda>name w. (Some OtherError, Suc w))\<rparr>"
  have p: "PolicyName ?c = ''default''" by (simp add: demo_def)
  have n: "NewREST ?c 0 = (None, 1)" by (simp add: demo_def)
  have g: "GetClusterPolicy ?c (PolicyName ?c) 1 = (Some OtherError, 2)" by (simp add: demo_def)
  have e: "Some OtherError \<noteq> Some NotFound" by simp
  note a = C10_other_check_errors_are_treated_as_present [OF n g e, THEN conjunct1, unfolded p]
  have b: "trace (reconcileDiscovery ?c
          \<lparr>world = 2,
           trace = [NewRESTCall None, GetClusterPolicyCall ''default'' (Some OtherError),
                    V2_Infof ''Ignoring bootstrap policy file because cluster policy found'']\<rparr>)
      = [NewRESTCall None, GetClusterPolicyCall ''default'' (Some OtherError),
         V2_Infof ''Ignoring bootstrap policy file because cluster policy found'',
         ReconcileClusterRoles (reconcileOptions ''system:discovery'') None,
         ReconcileClusterRoleBindings (reconcileOptions ''system:discovery'') None]"
    by (simp add: reconcileDiscovery_def demo_def call_def)
  show ?thesis
    by (intro conjI) (rule n, rule g [unfolded p], rule e, rule a, simp only: a b)
qed

end
